theory Spec2Isabelle
  imports Complex_Main
begin

unbundle bit_operations_syntax

section \<open>The image data deserializer\<close>

text \<open>
  A shallow embedding of \<^verbatim>\<open>ImageDataDeserializer\<close> and its label generator
  (\<^verbatim>\<open>TypedLabelGenerator\<close>). Member functions take the object and return the
  updated object; a thrown exception, a failed assertion and an access outside a
  vector are values of \<open>error\<close>. The type \<^verbatim>\<open>size_t\<close> is \<open>nat\<close>; the one
  conversion from \<^verbatim>\<open>int\<close> is written out (\<open>size_t_of_int\<close>).
\<close>

subsection \<open>Errors, assertions, vectors\<close>

text \<open>
  Modelled from the spec: \<^verbatim>\<open>ElementType\<close> is declared outside the source; it is the
  enumeration of the numeric representations of a stream, with at least the 32-bit and
  the 64-bit floating-point one. The code names \<^verbatim>\<open>et_float\<close> and \<^verbatim>\<open>et_double\<close> and has
  a branch for every other value: \<open>et_other\<close> carries the numeric value of any further
  enumerator.
\<close>

datatype ElementType = et_float | et_double | et_other nat

text \<open>
  Modelled from the spec: \<^verbatim>\<open>RuntimeError\<close> is declared outside the source; it raises
  a fatal error with the formatted message and does not return. The three messages of
  the source are the first three constructors, with the arguments of the format. The
  others are the two exceptions of \<^verbatim>\<open>std::stoi\<close>, the exception that \<^verbatim>\<open>GetInputs\<close> throws,
  a failed assertion with the text of its condition, and an access outside a vector.
\<close>

datatype error =
    RuntimeError_UnsupportedLabelElementType ElementType
  | RuntimeError_CouldNotOpen string
  | RuntimeError_InvalidMapFileFormat string nat
  | invalid_argument
  | out_of_range
  | runtime_error_NotSupported
  | AssertionFailed string
  | UndefinedBehaviour

text \<open>
  \<^verbatim>\<open>assert(c)\<close> aborts when \<open>c\<close> is false, unless the program is compiled with
  \<^verbatim>\<open>NDEBUG\<close>, where it is no statement at all. The build is a parameter of every
  function that asserts.
\<close>

definition assert :: "bool \<Rightarrow> bool \<Rightarrow> string \<Rightarrow> error + unit" where
  "assert NDEBUG c expr = (if NDEBUG \<or> c then Inr () else Inl (AssertionFailed expr))"

text \<open>\<^verbatim>\<open>std::vector::operator[]\<close>: no bounds check, undefined outside the vector.\<close>

definition vector_at :: "'a list \<Rightarrow> nat \<Rightarrow> error + 'a" where
  "vector_at v i = (if i < length v then Inr (v ! i) else Inl UndefinedBehaviour)"

definition size_t_of_int :: "int \<Rightarrow> nat" where
  "size_t_of_int i = nat (i mod 2 ^ 64)"

subsection \<open>TypedLabelGenerator\<close>

text \<open>
  A \<^verbatim>\<open>void*\<close> handed out by the deserializer: the address of the label generator's
  buffer (\<^verbatim>\<open>&m_labelData[0]\<close>), or the pixel data of the matrix retained in a slot
  of \<^verbatim>\<open>m_currentImages\<close>.
\<close>

datatype pointer = LabelData | MatData nat

text \<open>The object is its only member, \<^verbatim>\<open>m_labelData\<close>.\<close>

definition TypedLabelGenerator :: "nat \<Rightarrow> 'e::zero list" where
  "TypedLabelGenerator dimensions = replicate dimensions 0"

definition TypedLabelGenerator_GetLabelDataFor ::
  "'e::{zero,one} list \<Rightarrow> nat \<Rightarrow> error + (pointer \<times> 'e list)" where
  "TypedLabelGenerator_GetLabelDataFor m_labelData classId =
     (let filled = replicate (length m_labelData) 0
      in if classId < length filled then Inr (LabelData, filled[classId := 1])
         else Inl UndefinedBehaviour)"

text \<open>
  The two instantiations behind the \<^verbatim>\<open>LabelGenerator\<close> interface. The buffers only
  ever hold the values 0 and 1, which \<^verbatim>\<open>float\<close> and \<^verbatim>\<open>double\<close> represent exactly.
\<close>

datatype LabelGenerator =
    TypedLabelGenerator_float "real list"
  | TypedLabelGenerator_double "real list"

fun m_labelData :: "LabelGenerator \<Rightarrow> real list" where
  "m_labelData (TypedLabelGenerator_float b) = b"
| "m_labelData (TypedLabelGenerator_double b) = b"

fun GetLabelDataFor :: "LabelGenerator \<Rightarrow> nat \<Rightarrow> error + (pointer \<times> LabelGenerator)" where
  "GetLabelDataFor (TypedLabelGenerator_float b) classId =
     (case TypedLabelGenerator_GetLabelDataFor b classId of
        Inl e \<Rightarrow> Inl e
      | Inr (p, b') \<Rightarrow> Inr (p, TypedLabelGenerator_float b'))"
| "GetLabelDataFor (TypedLabelGenerator_double b) classId =
     (case TypedLabelGenerator_GetLabelDataFor b classId of
        Inl e \<Rightarrow> Inl e
      | Inr (p, b') \<Rightarrow> Inr (p, TypedLabelGenerator_double b'))"

text \<open>Successive calls on one generator, each on the buffer the previous one left.\<close>

fun GetLabelDataFor_calls :: "'e::{zero,one} list \<Rightarrow> nat list \<Rightarrow> error + 'e list" where
  "GetLabelDataFor_calls b [] = Inr b"
| "GetLabelDataFor_calls b (classId # rest) =
     (case TypedLabelGenerator_GetLabelDataFor b classId of
        Inl e \<Rightarrow> Inl e
      | Inr (p, b') \<Rightarrow> GetLabelDataFor_calls b' rest)"

subsection \<open>The standard library: getline and stoi\<close>

text \<open>
  \<^verbatim>\<open>std::getline(is, str, delim)\<close> on a stream in a good state, the stream being the
  characters still unread. It fails when it extracts nothing at all; otherwise it
  returns the characters before the first delimiter and discards that delimiter. A
  stream that is exhausted fails at the next call.
\<close>

definition getline :: "string \<Rightarrow> char \<Rightarrow> (string \<times> string) option" where
  "getline is delim =
     (if is = [] then None
      else Some (takeWhile (\<lambda>c. c \<noteq> delim) is, drop 1 (dropWhile (\<lambda>c. c \<noteq> delim) is)))"

definition isspace :: "char \<Rightarrow> bool" where
  "isspace c = (c \<in> set [CHR '' '', CHR 0x09, CHR 0x0A, CHR 0x0B, CHR 0x0C, CHR 0x0D])"

definition isdigit :: "char \<Rightarrow> bool" where
  "isdigit c = (c \<in> set ''0123456789'')"

definition digit_value :: "char \<Rightarrow> int" where
  "digit_value c = int (of_char c) - 48"

fun strtol_digits :: "int \<Rightarrow> string \<Rightarrow> int" where
  "strtol_digits acc [] = acc"
| "strtol_digits acc (c # cs) =
     (if isdigit c then strtol_digits (acc * 10 + digit_value c) cs else acc)"

text \<open>
  \<^verbatim>\<open>std::stoi(str)\<close>, base 10: leading white space is skipped, one sign is optional,
  the digits that follow are converted and the rest of the string is ignored. It throws
  \<^verbatim>\<open>std::invalid_argument\<close> when there is no digit and \<^verbatim>\<open>std::out_of_range\<close> when the
  value is no \<^verbatim>\<open>int\<close> (32 bits).
\<close>

definition stoi :: "string \<Rightarrow> error + int" where
  "stoi str =
     (let s = dropWhile isspace str;
          negative = (s \<noteq> [] \<and> hd s = CHR ''-'');
          digits = (if s \<noteq> [] \<and> (hd s = CHR ''-'' \<or> hd s = CHR ''+'') then tl s else s)
      in if digits = [] \<or> \<not> isdigit (hd digits) then Inl invalid_argument
         else let v = strtol_digits 0 digits;
                  v' = (if negative then - v else v)
              in if v' < - (2 ^ 31) \<or> 2 ^ 31 - 1 < v' then Inl out_of_range else Inr v')"

subsection \<open>OpenCV\<close>

text \<open>
  The image library is outside the repository: its matrix type is a type parameter and
  the operations the code calls are the fields of one record. \<^verbatim>\<open>imread\<close> takes the path
  and the flags; \<^verbatim>\<open>convertTo\<close> returns the converted matrix, which the code assigns to
  \<^verbatim>\<open>cvImage\<close> itself.
\<close>

record 'mat OpenCV =
  imread :: "string \<Rightarrow> int \<Rightarrow> 'mat"
  isContinuous :: "'mat \<Rightarrow> bool"
  type' :: "'mat \<Rightarrow> int"
  channels :: "'mat \<Rightarrow> int"
  cols :: "'mat \<Rightarrow> int"
  rows :: "'mat \<Rightarrow> int"
  convertTo :: "'mat \<Rightarrow> int \<Rightarrow> 'mat"

definition IMREAD_COLOR :: int where "IMREAD_COLOR = 1"
definition CV_32F :: int where "CV_32F = 5"
definition CV_64F :: int where "CV_64F = 6"

definition CV_MAKETYPE :: "int \<Rightarrow> int \<Rightarrow> int" where
  "CV_MAKETYPE depth cn = (depth AND 7) + push_bit 3 (cn - 1)"

subsection \<open>Data\<close>

text \<open>
  Modelled from the spec: \<^verbatim>\<open>ImageLayout\<close>, \<^verbatim>\<open>ImageLayoutWHC\<close> and \<^verbatim>\<open>GetHeight\<close> are
  declared outside the source. A layout is its three extents, and the height of the
  label layout is the label dimension.
\<close>

datatype ImageLayout = ImageLayoutWHC nat nat nat

fun GetHeight :: "ImageLayout \<Rightarrow> nat" where
  "GetHeight (ImageLayoutWHC w h c) = h"

text \<open>
  Modelled from the spec: the structs \<^verbatim>\<open>InputDescription\<close>, \<^verbatim>\<open>SequenceDescription\<close>,
  \<^verbatim>\<open>ImageSequenceDescription\<close> and \<^verbatim>\<open>Sequence\<close> are declared in headers outside the
  source. The records have the fields the code reads and writes; the class id is a
  \<^verbatim>\<open>size_t\<close>, like the label dimension it is compared with.
\<close>

record InputDescription =
  elementType :: ElementType
  sampleLayout :: ImageLayout

record SequenceDescription =
  id' :: nat
  chunkId :: nat
  numberOfSamples :: nat
  isValid :: bool

record ImageSequenceDescription = SequenceDescription +
  path :: string
  classId :: nat

record Sequence =
  data :: pointer
  layout :: ImageLayout
  numberOfSamples :: nat

text \<open>
  The members of the deserializer. \<^verbatim>\<open>m_sequences\<close> is a vector of pointers to the
  elements of \<^verbatim>\<open>m_imageSequences\<close>: a pointer is the index of the element.
\<close>

record 'mat ImageDataDeserializer =
  m_imageSequences :: "ImageSequenceDescription list"
  m_sequences :: "nat list"
  m_labelGenerator :: LabelGenerator
  m_currentImages :: "'mat list"
  m_labelSampleLayout :: ImageLayout
  m_featureElementType :: ElementType

subsection \<open>CreateSequenceDescriptions\<close>

text \<open>The condition of the format check: two columns are read up to a tab each.\<close>

definition read_columns :: "string \<Rightarrow> (string \<times> string) option" where
  "read_columns line =
     (case getline line (CHR 0x09) of
        None \<Rightarrow> None
      | Some (imgPath, ss) \<Rightarrow>
          (case getline ss (CHR 0x09) of
             None \<Rightarrow> None
           | Some (clsId, ss') \<Rightarrow> Some (imgPath, clsId)))"

text \<open>
  The body of the loop for the line numbered \<open>cline\<close>. The one \<^verbatim>\<open>description\<close>
  object of the source is reused for every line; \<^verbatim>\<open>numberOfSamples\<close> and \<^verbatim>\<open>isValid\<close>
  are set before the loop and the other four fields on every pass, so the element
  pushed is the record below.
\<close>

definition CreateSequenceDescriptions_line ::
  "bool \<Rightarrow> string \<Rightarrow> nat \<Rightarrow> nat \<Rightarrow> string \<Rightarrow> error + ImageSequenceDescription" where
  "CreateSequenceDescriptions_line NDEBUG mapPath labelDimension cline line =
     (case read_columns line of
        None \<Rightarrow> Inl (RuntimeError_InvalidMapFileFormat mapPath cline)
      | Some (imgPath, clsId) \<Rightarrow>
          (case stoi clsId of
             Inl e \<Rightarrow> Inl e
           | Inr v \<Rightarrow>
               (let description =
                      \<lparr>id' = cline, chunkId = cline,
                       SequenceDescription.numberOfSamples = 1, isValid = True,
                       path = imgPath, classId = size_t_of_int v\<rparr>
                in case assert NDEBUG (classId description < labelDimension)
                          ''description.classId < labelDimension'' of
                     Inl e \<Rightarrow> Inl e
                   | Inr u \<Rightarrow> Inr description)))"

function CreateSequenceDescriptions_loop ::
  "bool \<Rightarrow> string \<Rightarrow> nat \<Rightarrow> nat \<Rightarrow> string \<Rightarrow> ImageSequenceDescription list
     \<Rightarrow> error + ImageSequenceDescription list" where
  "CreateSequenceDescriptions_loop NDEBUG mapPath labelDimension cline mapFile seqs =
     (case getline mapFile (CHR 0x0A) of
        None \<Rightarrow> Inr seqs
      | Some (line, mapFile') \<Rightarrow>
          (case CreateSequenceDescriptions_line NDEBUG mapPath labelDimension cline line of
             Inl e \<Rightarrow> Inl e
           | Inr description \<Rightarrow>
               CreateSequenceDescriptions_loop NDEBUG mapPath labelDimension (cline + 1)
                 mapFile' (seqs @ [description])))"
  by pat_completeness auto
termination
  apply (relation "measure (\<lambda>(NDEBUG, mapPath, labelDimension, cline, mapFile, seqs). length mapFile)")
   apply simp
  apply (clarsimp simp: getline_def split: if_splits)
  subgoal for NDEBUG mapPath labelDimension cline mapFile
    using length_dropWhile_le [of "\<lambda>c. c \<noteq> CHR 0x0A" mapFile] by (cases mapFile) auto
  done

text \<open>
  The file system is a parameter: the content of the file at a path, or \<open>None\<close> where
  the file cannot be opened.
\<close>

definition CreateSequenceDescriptions ::
  "bool \<Rightarrow> (string \<Rightarrow> string option) \<Rightarrow> string \<Rightarrow> nat \<Rightarrow> 'mat ImageDataDeserializer
     \<Rightarrow> error + 'mat ImageDataDeserializer" where
  "CreateSequenceDescriptions NDEBUG fs mapPath labelDimension d =
     (case fs mapPath of
        None \<Rightarrow> Inl (RuntimeError_CouldNotOpen mapPath)
      | Some mapFile \<Rightarrow>
          (case CreateSequenceDescriptions_loop NDEBUG mapPath labelDimension 0 mapFile
                  (m_imageSequences d) of
             Inl e \<Rightarrow> Inl e
           | Inr seqs \<Rightarrow>
               Inr (d\<lparr>m_imageSequences := seqs,
                      m_sequences := m_sequences d @ [0..<length seqs]\<rparr>)))"

text \<open>
  The lines of a file as the loop reads them, with the same \<open>getline\<close>.
\<close>

function getlines :: "string \<Rightarrow> string list" where
  "getlines mapFile =
     (case getline mapFile (CHR 0x0A) of
        None \<Rightarrow> []
      | Some (line, mapFile') \<Rightarrow> line # getlines mapFile')"
  by pat_completeness auto
termination
  apply (relation "measure length")
   apply simp
  apply (clarsimp simp: getline_def split: if_splits)
  subgoal for mapFile
    using length_dropWhile_le [of "\<lambda>c. c \<noteq> CHR 0x0A" mapFile] by (cases mapFile) auto
  done

subsection \<open>The constructor\<close>

text \<open>
  Modelled from the spec: \<^verbatim>\<open>ImageConfigHelper\<close> is outside the source. It hands the
  constructor the declared input streams, the positions of the label and the feature
  stream among them, and the path of the manifest.
\<close>

record ImageConfigHelper =
  configHelper_GetInputs :: "InputDescription list"
  GetLabelInputIndex :: nat
  GetFeatureInputIndex :: nat
  GetMapPath :: string

text \<open>
  The constructor, from the helper's answers. The members it does not set start empty.
\<close>

definition ImageDataDeserializer ::
  "bool \<Rightarrow> (string \<Rightarrow> string option) \<Rightarrow> ImageConfigHelper
     \<Rightarrow> error + 'mat ImageDataDeserializer" where
  "ImageDataDeserializer NDEBUG fs configHelper =
     (let inputs = configHelper_GetInputs configHelper
      in case assert NDEBUG (length inputs = 2) ''inputs.size() == 2'' of
           Inl e \<Rightarrow> Inl e
         | Inr u \<Rightarrow>
        (case vector_at inputs (GetLabelInputIndex configHelper) of
           Inl e \<Rightarrow> Inl e
         | Inr label \<Rightarrow>
        (case vector_at inputs (GetFeatureInputIndex configHelper) of
           Inl e \<Rightarrow> Inl e
         | Inr feature \<Rightarrow>
        (let labelDimension = GetHeight (sampleLayout label)
         in case (if elementType label = et_float
                  then Inr (TypedLabelGenerator_float (TypedLabelGenerator labelDimension))
                  else if elementType label = et_double
                  then Inr (TypedLabelGenerator_double (TypedLabelGenerator labelDimension))
                  else Inl (RuntimeError_UnsupportedLabelElementType (elementType label))) of
              Inl e \<Rightarrow> Inl e
            | Inr generator \<Rightarrow>
                CreateSequenceDescriptions NDEBUG fs (GetMapPath configHelper) labelDimension
                  \<lparr>m_imageSequences = [], m_sequences = [],
                   m_labelGenerator = generator, m_currentImages = [],
                   m_labelSampleLayout = sampleLayout label,
                   m_featureElementType = elementType feature\<rparr>))))"

subsection \<open>GetInputs, SetEpochConfiguration, GetSequenceDescriptions\<close>

definition GetInputs :: "bool \<Rightarrow> 'mat ImageDataDeserializer \<Rightarrow> error + InputDescription list" where
  "GetInputs NDEBUG d =
     (case assert NDEBUG False ''false'' of
        Inl e \<Rightarrow> Inl e
      | Inr u \<Rightarrow> Inl runtime_error_NotSupported)"

definition SetEpochConfiguration :: "'mat ImageDataDeserializer \<Rightarrow> 'c \<Rightarrow> 'mat ImageDataDeserializer" where
  "SetEpochConfiguration d config = d"

definition GetSequenceDescriptions :: "'mat ImageDataDeserializer \<Rightarrow> nat list" where
  "GetSequenceDescriptions d = m_sequences d"

text \<open>
  What a caller does with the timeline: it takes the element at a position of the
  vector that \<open>GetSequenceDescriptions\<close> returns and follows the pointer. The source
  has no such function and no check on the position; outside the vector the access is
  undefined, which \<open>vector_at\<close> records as a value.
\<close>

definition lookup :: "'mat ImageDataDeserializer \<Rightarrow> nat \<Rightarrow> error + ImageSequenceDescription" where
  "lookup d i =
     (case vector_at (GetSequenceDescriptions d) i of
        Inl e \<Rightarrow> Inl e
      | Inr p \<Rightarrow> vector_at (m_imageSequences d) p)"

subsection \<open>GetSequencesById\<close>

text \<open>
  The "Convert element type" step: the matrix is converted when its type is not the
  configured depth with its own number of channels.
\<close>

definition convert_element_type :: "'mat OpenCV \<Rightarrow> ElementType \<Rightarrow> 'mat \<Rightarrow> 'mat" where
  "convert_element_type cv featureElementType cvImage =
     (let dataType = (if featureElementType = et_float then CV_32F else CV_64F)
      in if type' cv cvImage \<noteq> CV_MAKETYPE dataType (channels cv cvImage)
         then convertTo cv cvImage dataType else cvImage)"

text \<open>
  The body of the loop for one id. The image's \<^verbatim>\<open>data\<close> is the pixel data of the matrix
  that is then moved into \<^verbatim>\<open>m_currentImages\<close>, where it takes the next free slot; the
  label's \<^verbatim>\<open>data\<close> is the pointer the label generator returns.
\<close>

definition GetSequencesById_body ::
  "bool \<Rightarrow> 'mat OpenCV \<Rightarrow> nat \<Rightarrow> 'mat ImageDataDeserializer
     \<Rightarrow> error + (Sequence list \<times> 'mat ImageDataDeserializer)" where
  "GetSequencesById_body NDEBUG cv sequenceId d =
     (case assert NDEBUG (sequenceId < length (m_imageSequences d))
             ''id < m_imageSequences.size()'' of
        Inl e \<Rightarrow> Inl e
      | Inr u \<Rightarrow>
     (case vector_at (m_imageSequences d) sequenceId of
        Inl e \<Rightarrow> Inl e
      | Inr imageSequence \<Rightarrow>
     (let cvImage = imread cv (path imageSequence) IMREAD_COLOR
      in case assert NDEBUG (isContinuous cv cvImage) ''cvImage.isContinuous()'' of
           Inl e \<Rightarrow> Inl e
         | Inr u' \<Rightarrow>
     (let cvImage' = convert_element_type cv (m_featureElementType d) cvImage;
          image = \<lparr>data = MatData (length (m_currentImages d)),
                   layout = ImageLayoutWHC (size_t_of_int (cols cv cvImage'))
                              (size_t_of_int (rows cv cvImage'))
                              (size_t_of_int (channels cv cvImage')),
                   numberOfSamples = SequenceDescription.numberOfSamples imageSequence\<rparr>;
          d' = d\<lparr>m_currentImages := m_currentImages d @ [cvImage']\<rparr>
      in case GetLabelDataFor (m_labelGenerator d') (classId imageSequence) of
           Inl e \<Rightarrow> Inl e
         | Inr (p, generator) \<Rightarrow>
             (let label = \<lparr>data = p, layout = m_labelSampleLayout d',
                           numberOfSamples = SequenceDescription.numberOfSamples imageSequence\<rparr>
              in Inr ([image, label], d'\<lparr>m_labelGenerator := generator\<rparr>))))))"

fun GetSequencesById_loop ::
  "bool \<Rightarrow> 'mat OpenCV \<Rightarrow> nat list \<Rightarrow> 'mat ImageDataDeserializer \<Rightarrow> Sequence list list
     \<Rightarrow> error + (Sequence list list \<times> 'mat ImageDataDeserializer)" where
  "GetSequencesById_loop NDEBUG cv [] d result = Inr (result, d)"
| "GetSequencesById_loop NDEBUG cv (sequenceId # ids) d result =
     (case GetSequencesById_body NDEBUG cv sequenceId d of
        Inl e \<Rightarrow> Inl e
      | Inr (pair, d') \<Rightarrow> GetSequencesById_loop NDEBUG cv ids d' (result @ [pair]))"

definition GetSequencesById ::
  "bool \<Rightarrow> 'mat OpenCV \<Rightarrow> 'mat ImageDataDeserializer \<Rightarrow> nat list
     \<Rightarrow> error + (Sequence list list \<times> 'mat ImageDataDeserializer)" where
  "GetSequencesById NDEBUG cv d ids =
     (case assert NDEBUG (0 < length ids) ''0 < ids.size()'' of
        Inl e \<Rightarrow> Inl e
      | Inr u \<Rightarrow> GetSequencesById_loop NDEBUG cv ids (d\<lparr>m_currentImages := []\<rparr>) [])"

text \<open>
  Reading a label payload: what a holder of the pointer finds in the buffer of the
  label generator of the deserializer \<open>d\<close>.
\<close>

fun read_label :: "'mat ImageDataDeserializer \<Rightarrow> pointer \<Rightarrow> real list option" where
  "read_label d LabelData = Some (m_labelData (m_labelGenerator d))"
| "read_label d (MatData k) = None"

subsection \<open>RequireChunk and ReleaseChunk\<close>

definition RequireChunk :: "'mat ImageDataDeserializer \<Rightarrow> nat \<Rightarrow> bool \<times> 'mat ImageDataDeserializer" where
  "RequireChunk d chunkIndex = (True, d)"

definition ReleaseChunk :: "'mat ImageDataDeserializer \<Rightarrow> nat \<Rightarrow> 'mat ImageDataDeserializer" where
  "ReleaseChunk d chunkIndex = d"

subsection \<open>Notions of the statements\<close>

text \<open>
  The loop of \<open>CreateSequenceDescriptions\<close> over the list of lines instead of the
  stream; \<open>CreateSequenceDescriptions_loop_getlines\<close> shows they are the same.
\<close>

fun CreateSequenceDescriptions_lines ::
  "bool \<Rightarrow> string \<Rightarrow> nat \<Rightarrow> nat \<Rightarrow> string list \<Rightarrow> ImageSequenceDescription list
     \<Rightarrow> error + ImageSequenceDescription list" where
  "CreateSequenceDescriptions_lines NDEBUG mapPath labelDimension cline [] seqs = Inr seqs"
| "CreateSequenceDescriptions_lines NDEBUG mapPath labelDimension cline (line # lines) seqs =
     (case CreateSequenceDescriptions_line NDEBUG mapPath labelDimension cline line of
        Inl e \<Rightarrow> Inl e
      | Inr description \<Rightarrow>
          CreateSequenceDescriptions_lines NDEBUG mapPath labelDimension (cline + 1) lines
            (seqs @ [description]))"

text \<open>The number of tab-delimited fields of a line: one more than its tabs.\<close>

definition field_count :: "string \<Rightarrow> nat" where
  "field_count line = Suc (length (filter (\<lambda>c. c = CHR 0x09) line))"

text \<open>
  A manifest written from a list of rows, each a path and the text of a class id, and
  the class id texts that are plain decimal numerals.
\<close>

definition is_decimal :: "string \<Rightarrow> bool" where
  "is_decimal s \<longleftrightarrow> s \<noteq> [] \<and> (\<forall>c\<in>set s. isdigit c)"

definition manifest_text :: "(string \<times> string) list \<Rightarrow> string" where
  "manifest_text entries =
     concat (map (\<lambda>(imgPath, clsId). imgPath @ [CHR 0x09] @ clsId @ [CHR 0x0A]) entries)"

text \<open>
  The state that construction leaves when its assertions are enabled and the manifest
  passes them: the timeline points to the descriptions in order, and every class id
  is a position of the label buffer.
\<close>

definition well_formed :: "'mat ImageDataDeserializer \<Rightarrow> bool" where
  "well_formed d \<longleftrightarrow>
     m_sequences d = [0..<length (m_imageSequences d)] \<and>
     (\<forall>s\<in>set (m_imageSequences d). classId s < length (m_labelData (m_labelGenerator d)))"

text \<open>The matrix that \<open>GetSequencesById\<close> retains for an id.\<close>

definition decoded_image :: "'mat OpenCV \<Rightarrow> 'mat ImageDataDeserializer \<Rightarrow> nat \<Rightarrow> 'mat" where
  "decoded_image cv d sequenceId =
     convert_element_type cv (m_featureElementType d)
       (imread cv (path (m_imageSequences d ! sequenceId)) IMREAD_COLOR)"

text \<open>The pair that \<open>GetSequencesById\<close> builds for an id whose matrix takes slot \<open>k\<close>.\<close>

definition pair_for :: "'mat OpenCV \<Rightarrow> 'mat ImageDataDeserializer \<Rightarrow> nat \<Rightarrow> nat \<Rightarrow> Sequence list" where
  "pair_for cv d k sequenceId =
     [\<lparr>data = MatData k,
        layout = ImageLayoutWHC (size_t_of_int (cols cv (decoded_image cv d sequenceId)))
                   (size_t_of_int (rows cv (decoded_image cv d sequenceId)))
                   (size_t_of_int (channels cv (decoded_image cv d sequenceId))),
        numberOfSamples = SequenceDescription.numberOfSamples (m_imageSequences d ! sequenceId)\<rparr>,
      \<lparr>data = LabelData, layout = m_labelSampleLayout d,
        numberOfSamples = SequenceDescription.numberOfSamples (m_imageSequences d ! sequenceId)\<rparr>]"

fun pairs_for :: "'mat OpenCV \<Rightarrow> 'mat ImageDataDeserializer \<Rightarrow> nat \<Rightarrow> nat list \<Rightarrow> Sequence list list" where
  "pairs_for cv d k [] = []"
| "pairs_for cv d k (sequenceId # ids) = pair_for cv d k sequenceId # pairs_for cv d (Suc k) ids"

text \<open>The label generator after a call with a class id in range.\<close>

fun generator_after :: "LabelGenerator \<Rightarrow> nat \<Rightarrow> LabelGenerator" where
  "generator_after (TypedLabelGenerator_float b) c =
     TypedLabelGenerator_float ((replicate (length b) 0)[c := 1])"
| "generator_after (TypedLabelGenerator_double b) c =
     TypedLabelGenerator_double ((replicate (length b) 0)[c := 1])"

text \<open>
  The label buffers a caller finds behind the label pointers of a returned batch, read
  in the state in which the call returns.
\<close>

definition label_buffers :: "'mat ImageDataDeserializer \<Rightarrow> Sequence list list \<Rightarrow> real list option list" where
  "label_buffers d result = map (\<lambda>pair. read_label d (data (pair ! 1))) result"

text \<open>
  The label buffers that the caller of \<open>GetSequencesById\<close> finds when the call has
  returned.
\<close>

definition GetSequencesById_label_buffers ::
  "bool \<Rightarrow> 'mat OpenCV \<Rightarrow> 'mat ImageDataDeserializer \<Rightarrow> nat list \<Rightarrow> error + real list option list" where
  "GetSequencesById_label_buffers NDEBUG cv d ids =
     (case GetSequencesById NDEBUG cv d ids of
        Inl e \<Rightarrow> Inl e
      | Inr (result, d') \<Rightarrow> Inr (label_buffers d' result))"

subsection \<open>Concrete inputs\<close>

text \<open>
  A file system with one file, and an image library whose matrices are a path and a
  depth: every image is continuous, has three channels of 8-bit values and two rows and
  columns, and conversion changes the depth.
\<close>

definition file_system :: "string \<Rightarrow> string \<Rightarrow> string \<Rightarrow> string option" where
  "file_system mapPath mapFile p = (if p = mapPath then Some mapFile else None)"

definition scenario_cv :: "(string \<times> int) OpenCV" where
  "scenario_cv =
     \<lparr>imread = (\<lambda>p flags. (p, 0)), isContinuous = (\<lambda>m. True),
      type' = (\<lambda>m. CV_MAKETYPE (snd m) 3), channels = (\<lambda>m. 3),
      cols = (\<lambda>m. 2), rows = (\<lambda>m. 2), convertTo = (\<lambda>m t. (fst m, t))\<rparr>"

text \<open>Two streams, the features first; the label layout has height 3.\<close>

definition scenario_config :: ImageConfigHelper where
  "scenario_config =
     \<lparr>configHelper_GetInputs =
        [\<lparr>elementType = et_float, sampleLayout = ImageLayoutWHC 2 2 3\<rparr>,
         \<lparr>elementType = et_float, sampleLayout = ImageLayoutWHC 1 3 1\<rparr>],
      GetLabelInputIndex = 1, GetFeatureInputIndex = 0, GetMapPath = ''map.txt''\<rparr>"

text \<open>The manifest of the scenario: \<^verbatim>\<open>img0.png\<close> with class 0, \<^verbatim>\<open>img1.png\<close> with class 2.\<close>

definition scenario_manifest :: string where
  "scenario_manifest =
     ''img0.png'' @ [CHR 0x09] @ ''0'' @ [CHR 0x0A] @ ''img1.png'' @ [CHR 0x09] @ ''2'' @ [CHR 0x0A]"

definition scenario_deserializer :: "(string \<times> int) ImageDataDeserializer" where
  "scenario_deserializer =
     \<lparr>m_imageSequences =
        [\<lparr>id' = 0, chunkId = 0, SequenceDescription.numberOfSamples = 1, isValid = True,
          path = ''img0.png'', classId = 0\<rparr>,
         \<lparr>id' = 1, chunkId = 1, SequenceDescription.numberOfSamples = 1, isValid = True,
          path = ''img1.png'', classId = 2\<rparr>],
      m_sequences = [0, 1],
      m_labelGenerator = TypedLabelGenerator_float [0, 0, 0],
      m_currentImages = [],
      m_labelSampleLayout = ImageLayoutWHC 1 3 1,
      m_featureElementType = et_float\<rparr>"

text \<open>A second row without a class id, a row with a third field, a row with class 5.\<close>

definition one_field_manifest :: string where
  "one_field_manifest = ''img0.png'' @ [CHR 0x09] @ ''0'' @ [CHR 0x0A] @ ''foo.png'' @ [CHR 0x0A]"

definition three_field_line :: string where
  "three_field_line = ''img0.png'' @ [CHR 0x09] @ ''0'' @ [CHR 0x09] @ ''extra''"

definition class5_line :: string where
  "class5_line = ''img0.png'' @ [CHR 0x09] @ ''5''"

definition class5_deserializer :: "(string \<times> int) ImageDataDeserializer" where
  "class5_deserializer =
     \<lparr>m_imageSequences =
        [\<lparr>id' = 0, chunkId = 0, SequenceDescription.numberOfSamples = 1, isValid = True,
          path = ''img0.png'', classId = 5\<rparr>],
      m_sequences = [0],
      m_labelGenerator = TypedLabelGenerator_float [0, 0, 0],
      m_currentImages = [],
      m_labelSampleLayout = ImageLayoutWHC 1 3 1,
      m_featureElementType = et_float\<rparr>"

section \<open>Properties\<close>

text \<open>The two stream loops are unfolded where a proof asks for it.\<close>

declare CreateSequenceDescriptions_loop.simps [simp del]
declare getlines.simps [simp del]

text \<open>The equations that evaluate the model on a concrete input.\<close>

lemmas eval_defs = ImageDataDeserializer_def file_system_def scenario_config_def scenario_manifest_def
  scenario_deserializer_def one_field_manifest_def three_field_line_def class5_line_def
  class5_deserializer_def
  assert_def vector_at_def
  CreateSequenceDescriptions_def CreateSequenceDescriptions_loop.simps CreateSequenceDescriptions_line_def
  read_columns_def getline_def stoi_def isspace_def isdigit_def digit_value_def size_t_of_int_def
  TypedLabelGenerator_def numeral_3_eq_3 getlines.simps

lemmas eval2 = GetSequencesById_label_buffers_def GetSequencesById_def GetSequencesById_body_def
  scenario_cv_def convert_element_type_def CV_MAKETYPE_def CV_32F_def CV_64F_def IMREAD_COLOR_def
  label_buffers_def TypedLabelGenerator_GetLabelDataFor_def

subsection \<open>The label generator\<close>

lemma TypedLabelGenerator_GetLabelDataFor_in_range:
  "cid < length b \<Longrightarrow>
   TypedLabelGenerator_GetLabelDataFor b cid =
     Inr (LabelData, (replicate (length b) 0)[cid := 1])"
  by (simp add: TypedLabelGenerator_GetLabelDataFor_def)

lemma GetLabelDataFor_calls_length:
  "\<forall>c\<in>set earlier. c < length b \<Longrightarrow>
   \<exists>g. GetLabelDataFor_calls b earlier = Inr g \<and> length g = length b"
proof (induction earlier arbitrary: b)
  case Nil
  then show ?case by simp
next
  case (Cons c earlier)
  have c: "c < length b" using Cons.prems by simp
  let ?b' = "(replicate (length b) (0::'a))[c := 1]"
  have "\<forall>c\<in>set earlier. c < length ?b'" using Cons.prems by simp
  from Cons.IH [OF this] obtain g
    where "GetLabelDataFor_calls ?b' earlier = Inr g" "length g = length b" by auto
  then show ?case
    by (simp add: TypedLabelGenerator_GetLabelDataFor_in_range [OF c])
qed

text \<open>
  C1. On a generator constructed with \<open>labelDimension\<close>, after any earlier calls with
  class ids in range, a call with a class id below \<open>labelDimension\<close> returns the address
  of the buffer, and the buffer then has \<open>labelDimension\<close> elements, 1 at the class id
  and 0 everywhere else.
\<close>

theorem GetLabelDataFor_one_hot:
  fixes labelDimension cid :: nat and earlier :: "nat list"
  assumes "\<forall>c\<in>set earlier. c < labelDimension" and "cid < labelDimension"
  shows "\<exists>g buf. GetLabelDataFor_calls (TypedLabelGenerator labelDimension :: 'e::{zero,one} list) earlier = Inr g
           \<and> TypedLabelGenerator_GetLabelDataFor g cid = Inr (LabelData, buf)
           \<and> length buf = labelDimension
           \<and> buf ! cid = 1
           \<and> (\<forall>j<labelDimension. j \<noteq> cid \<longrightarrow> buf ! j = 0)"
proof -
  let ?b = "TypedLabelGenerator labelDimension :: 'e list"
  have len: "length ?b = labelDimension" by (simp add: TypedLabelGenerator_def)
  with assms(1) have "\<forall>c\<in>set earlier. c < length ?b" by simp
  from GetLabelDataFor_calls_length [OF this] len obtain g
    where g: "GetLabelDataFor_calls ?b earlier = Inr g" "length g = labelDimension" by auto
  let ?buf = "(replicate labelDimension (0::'e))[cid := 1]"
  have "TypedLabelGenerator_GetLabelDataFor g cid = Inr (LabelData, ?buf)"
    using TypedLabelGenerator_GetLabelDataFor_in_range [of cid g] g(2) assms(2) by simp
  moreover have "length ?buf = labelDimension" by simp
  moreover have "?buf ! cid = 1" using assms(2) by simp
  moreover have "\<forall>j<labelDimension. j \<noteq> cid \<longrightarrow> ?buf ! j = 0" by simp
  ultimately show ?thesis using g(1) by blast
qed

theorem GetLabelDataFor_one_hot_witness:
  "(0::nat) < 3 \<and> (1::nat) < 3 \<and> (2::nat) < 3
   \<and> (\<exists>g buf. GetLabelDataFor_calls (TypedLabelGenerator 3 :: real list) [0, 1] = Inr g
        \<and> TypedLabelGenerator_GetLabelDataFor g 2 = Inr (LabelData, buf)
        \<and> length buf = 3 \<and> buf ! 2 = 1 \<and> (\<forall>j<3. j \<noteq> 2 \<longrightarrow> buf ! j = 0))"
  using GetLabelDataFor_one_hot [of "[0, 1]" 3 2, where 'e = real] by simp

subsection \<open>The timeline\<close>

lemma CreateSequenceDescriptions_loop_getlines:
  "CreateSequenceDescriptions_loop NDEBUG mapPath labelDimension cline mapFile seqs =
   CreateSequenceDescriptions_lines NDEBUG mapPath labelDimension cline (getlines mapFile) seqs"
proof (induction NDEBUG mapPath labelDimension cline mapFile seqs
       rule: CreateSequenceDescriptions_loop.induct)
  case (1 NDEBUG mapPath labelDimension cline mapFile seqs)
  show ?case
  proof (cases "getline mapFile (CHR 0x0A)")
    case None
    show ?thesis
      by (subst CreateSequenceDescriptions_loop.simps, subst getlines.simps)
         (simp only: None option.case CreateSequenceDescriptions_lines.simps)
  next
    case (Some lr)
    obtain line mapFile' where lr: "lr = (line, mapFile')" by (cases lr)
    have g: "getline mapFile (CHR 0x0A) = Some (line, mapFile')"
      using Some lr by (simp only:)
    show ?thesis
    proof (cases "CreateSequenceDescriptions_line NDEBUG mapPath labelDimension cline line")
      case (Inl e)
      show ?thesis
        by (subst CreateSequenceDescriptions_loop.simps, subst getlines.simps)
           (simp only: g Inl option.case prod.case sum.case CreateSequenceDescriptions_lines.simps)
    next
      case (Inr description)
      have "CreateSequenceDescriptions_loop NDEBUG mapPath labelDimension (cline + 1) mapFile'
              (seqs @ [description]) =
            CreateSequenceDescriptions_lines NDEBUG mapPath labelDimension (cline + 1)
              (getlines mapFile') (seqs @ [description])"
        by (rule "1.IH" [OF Some lr [symmetric] Inr])
      then show ?thesis
        by (subst CreateSequenceDescriptions_loop.simps, subst getlines.simps)
           (simp only: g Inr option.case prod.case sum.case CreateSequenceDescriptions_lines.simps)
    qed
  qed
qed

lemma CreateSequenceDescriptions_line_fields:
  assumes "CreateSequenceDescriptions_line NDEBUG mapPath labelDimension cline line = Inr s"
  shows "id' s = cline" and "chunkId s = cline"
    and "SequenceDescription.numberOfSamples s = 1" and "isValid s"
    and "\<not> NDEBUG \<Longrightarrow> classId s < labelDimension"
  using assms
  by (auto simp: CreateSequenceDescriptions_line_def assert_def
           split: option.splits sum.splits if_splits prod.splits)

lemma CreateSequenceDescriptions_lines_Inr:
  "CreateSequenceDescriptions_lines NDEBUG mapPath labelDimension cline lines seqs = Inr seqs' \<Longrightarrow>
   \<exists>descs. seqs' = seqs @ descs \<and> length descs = length lines \<and>
     (\<forall>k<length lines.
        CreateSequenceDescriptions_line NDEBUG mapPath labelDimension (cline + k) (lines ! k)
          = Inr (descs ! k))"
proof (induction lines arbitrary: cline seqs)
  case Nil
  then show ?case by simp
next
  case (Cons line lines)
  from Cons.prems obtain description where
    l: "CreateSequenceDescriptions_line NDEBUG mapPath labelDimension cline line = Inr description"
    and r: "CreateSequenceDescriptions_lines NDEBUG mapPath labelDimension (Suc cline) lines
              (seqs @ [description]) = Inr seqs'"
    by (auto split: sum.splits)
  from Cons.IH [OF r] obtain descs where
    d: "seqs' = (seqs @ [description]) @ descs" "length descs = length lines"
       "\<forall>k<length lines.
          CreateSequenceDescriptions_line NDEBUG mapPath labelDimension (Suc cline + k) (lines ! k)
            = Inr (descs ! k)"
    by blast
  have "\<forall>k<length (line # lines).
          CreateSequenceDescriptions_line NDEBUG mapPath labelDimension (cline + k) ((line # lines) ! k)
            = Inr ((description # descs) ! k)"
  proof (intro allI impI)
    fix k assume "k < length (line # lines)"
    then show "CreateSequenceDescriptions_line NDEBUG mapPath labelDimension (cline + k) ((line # lines) ! k)
            = Inr ((description # descs) ! k)"
      using l d(3) by (cases k) auto
  qed
  with d(1,2) show ?case
    by (intro exI [of _ "description # descs"]) simp
qed

lemma CreateSequenceDescriptions_lines_first_error:
  "k < length lines \<Longrightarrow>
   \<forall>j<k. \<exists>s. CreateSequenceDescriptions_line NDEBUG mapPath labelDimension (cline + j) (lines ! j) = Inr s \<Longrightarrow>
   CreateSequenceDescriptions_line NDEBUG mapPath labelDimension (cline + k) (lines ! k) = Inl e \<Longrightarrow>
   CreateSequenceDescriptions_lines NDEBUG mapPath labelDimension cline lines seqs = Inl e"
proof (induction lines arbitrary: cline seqs k)
  case Nil
  then show ?case by simp
next
  case (Cons line lines)
  show ?case
  proof (cases k)
    case 0
    with Cons.prems(3) show ?thesis by simp
  next
    case (Suc k')
    from Cons.prems(2) Suc obtain s where
      s: "CreateSequenceDescriptions_line NDEBUG mapPath labelDimension cline line = Inr s"
      by fastforce
    have "\<forall>j<k'. \<exists>s. CreateSequenceDescriptions_line NDEBUG mapPath labelDimension (Suc cline + j) (lines ! j) = Inr s"
    proof (intro allI impI)
      fix j assume "j < k'"
      then have "Suc j < k" using Suc by simp
      with Cons.prems(2) show "\<exists>s. CreateSequenceDescriptions_line NDEBUG mapPath labelDimension (Suc cline + j) (lines ! j) = Inr s"
        by fastforce
    qed
    moreover have "CreateSequenceDescriptions_line NDEBUG mapPath labelDimension (Suc cline + k') (lines ! k') = Inl e"
      using Cons.prems(3) Suc by simp
    moreover have "k' < length lines" using Cons.prems(1) Suc by simp
    ultimately have "CreateSequenceDescriptions_lines NDEBUG mapPath labelDimension (Suc cline) lines (seqs @ [s]) = Inl e"
      using Cons.IH [of k' "Suc cline" "seqs @ [s]"] by blast
    with s show ?thesis by simp
  qed
qed

lemma CreateSequenceDescriptions_lines_some_error:
  "k < length lines \<Longrightarrow>
   isl (CreateSequenceDescriptions_line NDEBUG mapPath labelDimension (cline + k) (lines ! k)) \<Longrightarrow>
   isl (CreateSequenceDescriptions_lines NDEBUG mapPath labelDimension cline lines seqs)"
proof (induction lines arbitrary: cline seqs k)
  case Nil
  then show ?case by simp
next
  case (Cons line lines)
  show ?case
  proof (cases "CreateSequenceDescriptions_line NDEBUG mapPath labelDimension cline line")
    case (Inl e)
    then show ?thesis by simp
  next
    case (Inr s)
    show ?thesis
    proof (cases k)
      case 0
      with Cons.prems(2) Inr show ?thesis by simp
    next
      case (Suc k')
      with Cons.prems have "k' < length lines"
        and "isl (CreateSequenceDescriptions_line NDEBUG mapPath labelDimension (Suc cline + k') (lines ! k'))"
        by simp_all
      from Cons.IH [OF this] Inr show ?thesis by simp
    qed
  qed
qed

lemma read_columns_one_field:
  assumes "field_count line < 2"
  shows "read_columns line = None"
proof (cases "line = []")
  case True
  then show ?thesis by (simp add: read_columns_def getline_def)
next
  case False
  from assms have "filter (\<lambda>c. c = CHR 0x09) line = []"
    by (simp add: field_count_def)
  then have "\<forall>c\<in>set line. c \<noteq> CHR 0x09"
    by (simp add: filter_empty_conv)
  then have tw: "takeWhile (\<lambda>c. c \<noteq> CHR 0x09) line = line"
    and dw: "dropWhile (\<lambda>c. c \<noteq> CHR 0x09) line = []"
    by simp_all
  have "getline line (CHR 0x09) = Some (line, [])"
    unfolding getline_def tw dw using False by simp
  then show ?thesis
    by (simp add: read_columns_def getline_def)
qed

lemma CreateSequenceDescriptions_line_one_field:
  "field_count line < 2 \<Longrightarrow>
   CreateSequenceDescriptions_line NDEBUG mapPath labelDimension cline line =
     Inl (RuntimeError_InvalidMapFileFormat mapPath cline)"
  by (simp add: CreateSequenceDescriptions_line_def read_columns_one_field)

lemma CreateSequenceDescriptions_line_class_id:
  "read_columns line = Some (imgPath, clsId) \<Longrightarrow> stoi clsId = Inr v \<Longrightarrow>
   \<not> size_t_of_int v < labelDimension \<Longrightarrow>
   CreateSequenceDescriptions_line False mapPath labelDimension cline line =
     Inl (AssertionFailed ''description.classId < labelDimension'')"
  by (simp add: CreateSequenceDescriptions_line_def assert_def)

lemma CreateSequenceDescriptions_open:
  "fs mapPath = Some mapFile \<Longrightarrow>
   CreateSequenceDescriptions NDEBUG fs mapPath labelDimension d =
     (case CreateSequenceDescriptions_lines NDEBUG mapPath labelDimension 0 (getlines mapFile)
             (m_imageSequences d) of
        Inl e \<Rightarrow> Inl e
      | Inr seqs \<Rightarrow>
          Inr (d\<lparr>m_imageSequences := seqs, m_sequences := m_sequences d @ [0..<length seqs]\<rparr>))"
  by (simp add: CreateSequenceDescriptions_def CreateSequenceDescriptions_loop_getlines)

lemma CreateSequenceDescriptions_line_error:
  assumes fs: "fs mapPath = Some mapFile"
    and k: "k < length (getlines mapFile)"
    and e: "CreateSequenceDescriptions_line NDEBUG mapPath labelDimension k (getlines mapFile ! k) = Inl e"
  shows "isl (CreateSequenceDescriptions NDEBUG fs mapPath labelDimension d)"
    and "\<forall>j<k. \<exists>s. CreateSequenceDescriptions_line NDEBUG mapPath labelDimension j
                      (getlines mapFile ! j) = Inr s \<Longrightarrow>
         CreateSequenceDescriptions NDEBUG fs mapPath labelDimension d = Inl e"
proof -
  have "isl (CreateSequenceDescriptions_line NDEBUG mapPath labelDimension (0 + k) (getlines mapFile ! k))"
    using e by simp
  from CreateSequenceDescriptions_lines_some_error [OF k this]
  have "isl (CreateSequenceDescriptions_lines NDEBUG mapPath labelDimension 0 (getlines mapFile)
               (m_imageSequences d))" .
  then show "isl (CreateSequenceDescriptions NDEBUG fs mapPath labelDimension d)"
    using CreateSequenceDescriptions_open [of fs mapPath mapFile NDEBUG labelDimension d] fs
    by (simp split: sum.splits)
next
  assume "\<forall>j<k. \<exists>s. CreateSequenceDescriptions_line NDEBUG mapPath labelDimension j
                      (getlines mapFile ! j) = Inr s"
  then have "CreateSequenceDescriptions_lines NDEBUG mapPath labelDimension 0 (getlines mapFile)
               (m_imageSequences d) = Inl e"
    using CreateSequenceDescriptions_lines_first_error [of k "getlines mapFile" NDEBUG mapPath labelDimension 0 e]
      k e by simp
  then show "CreateSequenceDescriptions NDEBUG fs mapPath labelDimension d = Inl e"
    using CreateSequenceDescriptions_open [of fs mapPath mapFile NDEBUG labelDimension d] fs
    by simp
qed

lemma ImageDataDeserializer_Inr:
  assumes "ImageDataDeserializer NDEBUG fs configHelper = Inr d"
  shows "\<exists>(label::InputDescription) (feature::InputDescription) generator.
           vector_at (configHelper_GetInputs configHelper) (GetLabelInputIndex configHelper) = Inr label \<and>
           length (m_labelData generator) = GetHeight (sampleLayout label) \<and>
           CreateSequenceDescriptions NDEBUG fs (GetMapPath configHelper) (GetHeight (sampleLayout label))
             \<lparr>m_imageSequences = [], m_sequences = [], m_labelGenerator = generator,
              m_currentImages = [], m_labelSampleLayout = sampleLayout label,
              m_featureElementType = elementType feature\<rparr> = Inr d"
proof -
  from assms obtain label feature where
    l: "vector_at (configHelper_GetInputs configHelper) (GetLabelInputIndex configHelper) = Inr label"
    and f: "vector_at (configHelper_GetInputs configHelper) (GetFeatureInputIndex configHelper) = Inr feature"
    by (auto simp: ImageDataDeserializer_def Let_def split: sum.splits)
  let ?dim = "GetHeight (sampleLayout label)"
  let ?d0 = "\<lambda>generator. \<lparr>m_imageSequences = [], m_sequences = [], m_labelGenerator = generator,
              m_currentImages = ([]::'a list), m_labelSampleLayout = sampleLayout label,
              m_featureElementType = elementType feature\<rparr>"
  from assms l f have
    "(elementType label = et_float \<and>
        CreateSequenceDescriptions NDEBUG fs (GetMapPath configHelper) ?dim
          (?d0 (TypedLabelGenerator_float (TypedLabelGenerator ?dim))) = Inr d) \<or>
     (elementType label = et_double \<and>
        CreateSequenceDescriptions NDEBUG fs (GetMapPath configHelper) ?dim
          (?d0 (TypedLabelGenerator_double (TypedLabelGenerator ?dim))) = Inr d)"
    by (auto simp: ImageDataDeserializer_def Let_def split: sum.splits if_splits)
  moreover have "length (m_labelData (TypedLabelGenerator_float (TypedLabelGenerator ?dim))) = ?dim"
    and "length (m_labelData (TypedLabelGenerator_double (TypedLabelGenerator ?dim))) = ?dim"
    by (simp_all add: TypedLabelGenerator_def)
  ultimately show ?thesis using l by blast
qed

lemma CreateSequenceDescriptions_Inr:
  assumes "CreateSequenceDescriptions NDEBUG fs mapPath labelDimension d0 = Inr d"
    and "fs mapPath = Some mapFile"
  shows "\<exists>descs. d = d0\<lparr>m_imageSequences := m_imageSequences d0 @ descs,
                          m_sequences := m_sequences d0 @ [0..<length (m_imageSequences d0) + length descs]\<rparr> \<and>
           length descs = length (getlines mapFile) \<and>
           (\<forall>k<length (getlines mapFile).
              CreateSequenceDescriptions_line NDEBUG mapPath labelDimension k (getlines mapFile ! k)
                = Inr (descs ! k))"
proof -
  from assms CreateSequenceDescriptions_open [of fs mapPath mapFile NDEBUG labelDimension d0]
  obtain seqs where
    s: "CreateSequenceDescriptions_lines NDEBUG mapPath labelDimension 0 (getlines mapFile)
          (m_imageSequences d0) = Inr seqs"
    and d: "d = d0\<lparr>m_imageSequences := seqs, m_sequences := m_sequences d0 @ [0..<length seqs]\<rparr>"
    by (auto split: sum.splits)
  from CreateSequenceDescriptions_lines_Inr [OF s] obtain descs where
    "seqs = m_imageSequences d0 @ descs" "length descs = length (getlines mapFile)"
    "\<forall>k<length (getlines mapFile).
       CreateSequenceDescriptions_line NDEBUG mapPath labelDimension (0 + k) (getlines mapFile ! k)
         = Inr (descs ! k)"
    by blast
  with d show ?thesis by (intro exI [of _ descs]) simp
qed

text \<open>
  Which manifests construction accepts: rows of a path without tab or line feed, a tab
  and a decimal numeral that \<^verbatim>\<open>std::stoi\<close> can return (at most \<open>2\<^sup>3\<^sup>1 - 1\<close>) and
  that, where assertions are enabled, is below the label dimension. A numeral beyond
  the range of \<^verbatim>\<open>int\<close> makes \<^verbatim>\<open>std::stoi\<close> throw.
\<close>

lemma isdigit_not_special:
  "isdigit c \<Longrightarrow> \<not> isspace c \<and> c \<noteq> CHR ''-'' \<and> c \<noteq> CHR ''+'' \<and> c \<noteq> CHR 0x09 \<and> c \<noteq> CHR 0x0A"
  by (auto simp: isdigit_def isspace_def)

lemma digit_value_nonneg: "isdigit c \<Longrightarrow> 0 \<le> digit_value c"
  by (auto simp: isdigit_def digit_value_def)

lemma strtol_digits_nonneg: "0 \<le> acc \<Longrightarrow> 0 \<le> strtol_digits acc s"
proof (induction s arbitrary: acc)
  case Nil
  then show ?case by simp
next
  case (Cons c s)
  then show ?case using digit_value_nonneg [of c] by simp
qed

lemma stoi_decimal:
  assumes "is_decimal s" and "strtol_digits 0 s \<le> 2 ^ 31 - 1"
  shows "stoi s = Inr (strtol_digits 0 s)"
proof -
  from assms(1) obtain c cs where s: "s = c # cs" and c: "isdigit c"
    by (cases s) (auto simp: is_decimal_def)
  note n = isdigit_not_special [OF c]
  have "0 \<le> strtol_digits 0 s" by (rule strtol_digits_nonneg) simp
  with assms(2) s c n show ?thesis
    by (simp add: stoi_def Let_def)
qed

lemma getline_row:
  assumes "d \<notin> set field"
  shows "getline (field @ d # rest) d = Some (field, rest)"
proof -
  have "takeWhile (\<lambda>c. c \<noteq> d) (field @ d # rest) = field"
    using assms by (induction field) auto
  moreover have "dropWhile (\<lambda>c. c \<noteq> d) (field @ d # rest) = d # rest"
    using assms by (induction field) auto
  ultimately show ?thesis by (simp add: getline_def)
qed

lemma getline_last_field:
  assumes "d \<notin> set field" and "field \<noteq> []"
  shows "getline field d = Some (field, [])"
proof -
  have tw: "takeWhile (\<lambda>c. c \<noteq> d) field = field"
    and dw: "dropWhile (\<lambda>c. c \<noteq> d) field = []"
    using assms(1) by (induction field) auto
  show ?thesis unfolding getline_def tw dw using assms(2) by simp
qed

lemma read_columns_row:
  assumes "CHR 0x09 \<notin> set imgPath" and "CHR 0x09 \<notin> set clsId" and "clsId \<noteq> []"
  shows "read_columns (imgPath @ [CHR 0x09] @ clsId) = Some (imgPath, clsId)"
  using getline_row [OF assms(1), of clsId] getline_last_field [OF assms(2,3)]
  by (simp add: read_columns_def)

lemma getlines_manifest_text:
  assumes "\<forall>(imgPath, clsId)\<in>set entries. CHR 0x0A \<notin> set imgPath \<and> CHR 0x0A \<notin> set clsId"
  shows "getlines (manifest_text entries) =
           map (\<lambda>(imgPath, clsId). imgPath @ [CHR 0x09] @ clsId) entries"
  using assms
proof (induction entries)
  case Nil
  show ?case
    by (subst getlines.simps) (simp add: manifest_text_def getline_def)
next
  case (Cons e entries)
  obtain imgPath clsId where e: "e = (imgPath, clsId)" by (cases e)
  have "CHR 0x0A \<notin> set (imgPath @ [CHR 0x09] @ clsId)"
    using Cons.prems e by simp
  from getline_row [OF this, of "manifest_text entries"]
  have g: "getline (manifest_text (e # entries)) (CHR 0x0A) =
             Some (imgPath @ [CHR 0x09] @ clsId, manifest_text entries)"
    by (simp add: manifest_text_def e)
  have "getlines (manifest_text entries) =
           map (\<lambda>(imgPath, clsId). imgPath @ [CHR 0x09] @ clsId) entries"
    using Cons.IH Cons.prems by simp
  then show ?case
    by (subst getlines.simps) (simp add: g, simp add: e)
qed

lemma CreateSequenceDescriptions_line_row:
  assumes "CHR 0x09 \<notin> set imgPath" and "is_decimal clsId"
    and "strtol_digits 0 clsId \<le> 2 ^ 31 - 1"
    and "NDEBUG \<or> nat (strtol_digits 0 clsId) < labelDimension"
  shows "CreateSequenceDescriptions_line NDEBUG mapPath labelDimension cline
           (imgPath @ [CHR 0x09] @ clsId) =
         Inr \<lparr>id' = cline, chunkId = cline, SequenceDescription.numberOfSamples = 1,
              isValid = True, path = imgPath, classId = nat (strtol_digits 0 clsId)\<rparr>"
proof -
  have "CHR 0x09 \<notin> set clsId" and "clsId \<noteq> []"
    using assms(2) isdigit_not_special by (auto simp: is_decimal_def)
  note r = read_columns_row [OF assms(1) this]
  note s = stoi_decimal [OF assms(2,3)]
  have "0 \<le> strtol_digits 0 clsId" by (rule strtol_digits_nonneg) simp
  with assms(3) have "size_t_of_int (strtol_digits 0 clsId) = nat (strtol_digits 0 clsId)"
    by (simp add: size_t_of_int_def)
  with r s assms(4) show ?thesis
    by (auto simp: CreateSequenceDescriptions_line_def assert_def)
qed

lemma CreateSequenceDescriptions_lines_all_Inr:
  "\<forall>k<length lines. \<exists>s. CreateSequenceDescriptions_line NDEBUG mapPath labelDimension (cline + k) (lines ! k) = Inr s \<Longrightarrow>
   \<exists>seqs'. CreateSequenceDescriptions_lines NDEBUG mapPath labelDimension cline lines seqs = Inr seqs'"
proof (induction lines arbitrary: cline seqs)
  case Nil
  then show ?case by simp
next
  case (Cons line lines)
  from Cons.prems obtain s where
    s: "CreateSequenceDescriptions_line NDEBUG mapPath labelDimension cline line = Inr s"
    by fastforce
  have "\<forall>k<length lines. \<exists>s. CreateSequenceDescriptions_line NDEBUG mapPath labelDimension (Suc cline + k) (lines ! k) = Inr s"
  proof (intro allI impI)
    fix k assume "k < length lines"
    then have "Suc k < length (line # lines)" by simp
    with Cons.prems show "\<exists>s. CreateSequenceDescriptions_line NDEBUG mapPath labelDimension (Suc cline + k) (lines ! k) = Inr s"
      by fastforce
  qed
  from Cons.IH [OF this] s show ?case by simp
qed

lemma CreateSequenceDescriptions_accepts:
  assumes "fs mapPath = Some (manifest_text entries)"
    and "\<forall>(imgPath, clsId)\<in>set entries.
           CHR 0x09 \<notin> set imgPath \<and> CHR 0x0A \<notin> set imgPath \<and> is_decimal clsId \<and>
           strtol_digits 0 clsId \<le> 2 ^ 31 - 1 \<and>
           (NDEBUG \<or> nat (strtol_digits 0 clsId) < labelDimension)"
  shows "length (getlines (manifest_text entries)) = length entries \<and>
         (\<exists>d'. CreateSequenceDescriptions NDEBUG fs mapPath labelDimension d = Inr d')"
proof -
  have nl: "\<forall>(imgPath, clsId)\<in>set entries. CHR 0x0A \<notin> set imgPath \<and> CHR 0x0A \<notin> set clsId"
    using assms(2) isdigit_not_special by (fastforce simp: is_decimal_def)
  note l = getlines_manifest_text [OF nl]
  have "\<forall>k<length (getlines (manifest_text entries)).
          \<exists>s. CreateSequenceDescriptions_line NDEBUG mapPath labelDimension (0 + k)
                 (getlines (manifest_text entries) ! k) = Inr s"
  proof (intro allI impI)
    fix k assume "k < length (getlines (manifest_text entries))"
    then have k: "k < length entries" by (simp add: l)
    obtain imgPath clsId where e: "entries ! k = (imgPath, clsId)" by (cases "entries ! k")
    with k have "(imgPath, clsId) \<in> set entries" by (metis nth_mem)
    with assms(2) have "CHR 0x09 \<notin> set imgPath" "is_decimal clsId"
      "strtol_digits 0 clsId \<le> 2 ^ 31 - 1" "NDEBUG \<or> nat (strtol_digits 0 clsId) < labelDimension"
      by auto
    from CreateSequenceDescriptions_line_row [OF this, of mapPath "0 + k"] k e
    show "\<exists>s. CreateSequenceDescriptions_line NDEBUG mapPath labelDimension (0 + k)
                 (getlines (manifest_text entries) ! k) = Inr s"
      by (simp add: l)
  qed
  from CreateSequenceDescriptions_lines_all_Inr [OF this, of "m_imageSequences d"]
  obtain seqs' where
    "CreateSequenceDescriptions_lines NDEBUG mapPath labelDimension 0
       (getlines (manifest_text entries)) (m_imageSequences d) = Inr seqs'"
    by blast
  then have "\<exists>d'. CreateSequenceDescriptions NDEBUG fs mapPath labelDimension d = Inr d'"
    using CreateSequenceDescriptions_open [of fs mapPath "manifest_text entries" NDEBUG labelDimension d]
      assms(1) by simp
  then show ?thesis by (simp add: l)
qed

lemma stoi_above_INT_MAX: "stoi ''3000000000'' = Inl out_of_range"
  by (simp add: stoi_def isspace_def isdigit_def digit_value_def)

lemma ImageDataDeserializer_accepts:
  fixes c :: ImageConfigHelper
  assumes "NDEBUG \<or> length (configHelper_GetInputs c) = 2"
    and "GetLabelInputIndex c < length (configHelper_GetInputs c)"
    and "GetFeatureInputIndex c < length (configHelper_GetInputs c)"
    and "elementType (configHelper_GetInputs c ! GetLabelInputIndex c) = et_float \<or>
         elementType (configHelper_GetInputs c ! GetLabelInputIndex c) = et_double"
    and "fs (GetMapPath c) = Some (manifest_text entries)"
    and "\<forall>(imgPath, clsId)\<in>set entries.
           CHR 0x09 \<notin> set imgPath \<and> CHR 0x0A \<notin> set imgPath \<and> is_decimal clsId \<and>
           strtol_digits 0 clsId \<le> 2 ^ 31 - 1 \<and>
           (NDEBUG \<or> nat (strtol_digits 0 clsId)
              < GetHeight (sampleLayout (configHelper_GetInputs c ! GetLabelInputIndex c)))"
  shows "\<exists>d. (ImageDataDeserializer NDEBUG fs c :: error + 'mat ImageDataDeserializer) = Inr d"
proof -
  let ?label = "configHelper_GetInputs c ! GetLabelInputIndex c"
  let ?feature = "configHelper_GetInputs c ! GetFeatureInputIndex c"
  let ?d0 = "\<lambda>generator. \<lparr>m_imageSequences = [], m_sequences = [], m_labelGenerator = generator,
              m_currentImages = ([]::'mat list), m_labelSampleLayout = sampleLayout ?label,
              m_featureElementType = elementType ?feature\<rparr>"
  have acc: "\<exists>d'. CreateSequenceDescriptions NDEBUG fs (GetMapPath c)
                (GetHeight (sampleLayout ?label)) (?d0 generator) = Inr d'" for generator
    using CreateSequenceDescriptions_accepts
            [of fs "GetMapPath c" entries NDEBUG "GetHeight (sampleLayout ?label)" "?d0 generator"]
          assms(5,6)
    by blast
  from assms(4) show ?thesis
  proof
    assume "elementType ?label = et_float"
    with assms(1,2,3) acc [of "TypedLabelGenerator_float (TypedLabelGenerator (GetHeight (sampleLayout ?label)))"]
    show ?thesis
      by (auto simp: ImageDataDeserializer_def Let_def assert_def vector_at_def)
  next
    assume "elementType ?label = et_double"
    with assms(1,2,3) acc [of "TypedLabelGenerator_double (TypedLabelGenerator (GetHeight (sampleLayout ?label)))"]
    show ?thesis
      by (auto simp: ImageDataDeserializer_def Let_def assert_def vector_at_def)
  qed
qed

text \<open>
  C3, as amended. When the constructor has returned a deserializer for a manifest of
  \<open>N\<close> lines, the timeline has \<open>N\<close> entries; every position below \<open>N\<close> holds a
  description whose \<open>id\<close> and \<open>chunkId\<close> are that position, the 0-based number of
  its line, with \<open>numberOfSamples = 1\<close> and \<open>isValid\<close>, and it is the description that
  the loop builds from that line. The id \<open>N\<close> is no position of the timeline, and with
  assertions enabled \<open>GetSequencesById\<close> aborts on it at its assertion on the id.
  Nothing is claimed for the id \<open>N\<close> in a build with \<^verbatim>\<open>NDEBUG\<close>.
\<close>

theorem timeline_id_density:
  assumes "ImageDataDeserializer NDEBUG fs configHelper = Inr d"
    and "fs (GetMapPath configHelper) = Some mapFile"
  shows "length (GetSequenceDescriptions d) = length (getlines mapFile) \<and>
         (\<forall>i<length (getlines mapFile).
            \<exists>s. lookup d i = Inr s \<and> id' s = i \<and> chunkId s = i \<and>
                SequenceDescription.numberOfSamples s = 1 \<and> isValid s \<and>
                CreateSequenceDescriptions_line NDEBUG (GetMapPath configHelper)
                  (GetHeight (sampleLayout
                     (configHelper_GetInputs configHelper ! GetLabelInputIndex configHelper)))
                  i (getlines mapFile ! i) = Inr s) \<and>
         (\<not> NDEBUG \<longrightarrow>
            GetSequencesById NDEBUG cv d [length (getlines mapFile)] =
              Inl (AssertionFailed ''id < m_imageSequences.size()''))"
proof -
  let ?label = "configHelper_GetInputs configHelper ! GetLabelInputIndex configHelper"
  from ImageDataDeserializer_Inr [OF assms(1)]
  obtain label :: InputDescription and feature :: InputDescription and generator where
    v: "vector_at (configHelper_GetInputs configHelper) (GetLabelInputIndex configHelper) = Inr label"
    and c: "CreateSequenceDescriptions NDEBUG fs (GetMapPath configHelper) (GetHeight (sampleLayout label))
             \<lparr>m_imageSequences = [], m_sequences = [], m_labelGenerator = generator,
              m_currentImages = [], m_labelSampleLayout = sampleLayout label,
              m_featureElementType = elementType feature\<rparr> = Inr d"
    by blast
  from v have label: "label = ?label"
    by (simp add: vector_at_def split: if_splits)
  from CreateSequenceDescriptions_Inr [OF c assms(2)] obtain descs where
    seqs: "m_imageSequences d = descs" and ptrs: "m_sequences d = [0..<length descs]"
    and len: "length descs = length (getlines mapFile)"
    and lines: "\<forall>k<length (getlines mapFile).
           CreateSequenceDescriptions_line NDEBUG (GetMapPath configHelper)
             (GetHeight (sampleLayout label)) k (getlines mapFile ! k) = Inr (descs ! k)"
    by auto
  have "length (GetSequenceDescriptions d) = length (getlines mapFile)"
    by (simp add: GetSequenceDescriptions_def ptrs len)
  moreover have "\<forall>i<length (getlines mapFile).
            \<exists>s. lookup d i = Inr s \<and> id' s = i \<and> chunkId s = i \<and>
                SequenceDescription.numberOfSamples s = 1 \<and> isValid s \<and>
                CreateSequenceDescriptions_line NDEBUG (GetMapPath configHelper)
                  (GetHeight (sampleLayout ?label)) i (getlines mapFile ! i) = Inr s"
  proof (intro allI impI)
    fix i assume i: "i < length (getlines mapFile)"
    then have "lookup d i = Inr (descs ! i)"
      by (simp add: lookup_def GetSequenceDescriptions_def vector_at_def ptrs seqs len)
    moreover from lines i label have l:
      "CreateSequenceDescriptions_line NDEBUG (GetMapPath configHelper)
         (GetHeight (sampleLayout ?label)) i (getlines mapFile ! i) = Inr (descs ! i)"
      by blast
    note CreateSequenceDescriptions_line_fields(1-4) [OF l]
    ultimately show "\<exists>s. lookup d i = Inr s \<and> id' s = i \<and> chunkId s = i \<and>
                SequenceDescription.numberOfSamples s = 1 \<and> isValid s \<and>
                CreateSequenceDescriptions_line NDEBUG (GetMapPath configHelper)
                  (GetHeight (sampleLayout ?label)) i (getlines mapFile ! i) = Inr s"
      using l by blast
  qed
  moreover have "\<not> NDEBUG \<longrightarrow>
            GetSequencesById NDEBUG cv d [length (getlines mapFile)] =
              Inl (AssertionFailed ''id < m_imageSequences.size()'')"
    by (simp add: GetSequencesById_def GetSequencesById_body_def assert_def seqs len)
  ultimately show ?thesis by blast
qed

text \<open>The manifest of the scenario: two lines, two entries.\<close>

theorem timeline_id_density_witness:
  "ImageDataDeserializer False (file_system ''map.txt'' scenario_manifest) scenario_config
     = Inr scenario_deserializer \<and>
   file_system ''map.txt'' scenario_manifest (GetMapPath scenario_config) = Some scenario_manifest \<and>
   length (getlines scenario_manifest) = 2 \<and>
   length (GetSequenceDescriptions scenario_deserializer) = 2 \<and>
   (\<exists>s. lookup scenario_deserializer 0 = Inr s \<and> id' s = 0 \<and> chunkId s = 0 \<and>
        SequenceDescription.numberOfSamples s = 1 \<and> isValid s) \<and>
   (\<exists>s. lookup scenario_deserializer 1 = Inr s \<and> id' s = 1 \<and> chunkId s = 1 \<and>
        SequenceDescription.numberOfSamples s = 1 \<and> isValid s) \<and>
   GetSequencesById False scenario_cv scenario_deserializer [2] =
     Inl (AssertionFailed ''id < m_imageSequences.size()'')"
proof -
  have h1: "ImageDataDeserializer False (file_system ''map.txt'' scenario_manifest) scenario_config
     = Inr scenario_deserializer"
    by (simp add: eval_defs)
  have h2: "file_system ''map.txt'' scenario_manifest (GetMapPath scenario_config) = Some scenario_manifest"
    by (simp add: file_system_def scenario_config_def)
  have h3: "length (getlines scenario_manifest) = 2"
    by (simp add: eval_defs)
  have "length (GetSequenceDescriptions scenario_deserializer) = 2 \<and>
         (\<forall>i<2. \<exists>s. lookup scenario_deserializer i = Inr s \<and> id' s = i \<and> chunkId s = i \<and>
                SequenceDescription.numberOfSamples s = 1 \<and> isValid s) \<and>
         GetSequencesById False scenario_cv scenario_deserializer [2] =
           Inl (AssertionFailed ''id < m_imageSequences.size()'')"
    using timeline_id_density [where fs = "file_system ''map.txt'' scenario_manifest"
        and configHelper = scenario_config and NDEBUG = False and d = scenario_deserializer
        and mapFile = scenario_manifest and cv = scenario_cv] h1 h2 h3
    by (simp only:) blast
  then have "length (GetSequenceDescriptions scenario_deserializer) = 2"
    and "\<exists>s. lookup scenario_deserializer 0 = Inr s \<and> id' s = 0 \<and> chunkId s = 0 \<and>
        SequenceDescription.numberOfSamples s = 1 \<and> isValid s"
    and "\<exists>s. lookup scenario_deserializer 1 = Inr s \<and> id' s = 1 \<and> chunkId s = 1 \<and>
        SequenceDescription.numberOfSamples s = 1 \<and> isValid s"
    and "GetSequencesById False scenario_cv scenario_deserializer [2] =
           Inl (AssertionFailed ''id < m_imageSequences.size()'')"
    by simp_all
  with h1 h2 h3 show ?thesis by blast
qed

text \<open>
  C3 as stated fails for the id \<open>N\<close>: compiled with \<^verbatim>\<open>NDEBUG\<close>, construction from the
  two-row manifest returns the same timeline, and \<open>GetSequencesById\<close> with the id 2
  neither fails nor aborts: the assertion on the id is gone and
  \<^verbatim>\<open>m_imageSequences[id]\<close> reads outside the vector, unchecked.
\<close>

theorem timeline_id_N_unchecked_counterexample:
  "ImageDataDeserializer True (file_system ''map.txt'' scenario_manifest) scenario_config
     = Inr scenario_deserializer \<and>
   length (getlines scenario_manifest) = 2 \<and>
   length (GetSequenceDescriptions scenario_deserializer) = 2 \<and>
   GetSequencesById True scenario_cv scenario_deserializer [2] = Inl UndefinedBehaviour"
  by (simp add: eval_defs eval2 GetSequenceDescriptions_def)

text \<open>
  C5, as amended. A line with fewer than two tab-delimited fields aborts the load;
  when the lines before it are accepted, the error is the format error with the path of
  the manifest and the 0-based number of the line. Nothing is claimed for a line with
  more than two fields.
\<close>

theorem format_error_fewer_than_two_fields:
  assumes "fs mapPath = Some mapFile"
    and "k < length (getlines mapFile)"
    and "field_count (getlines mapFile ! k) < 2"
  shows "isl (CreateSequenceDescriptions NDEBUG fs mapPath labelDimension d) \<and>
         ((\<forall>j<k. \<exists>s. CreateSequenceDescriptions_line NDEBUG mapPath labelDimension j
                        (getlines mapFile ! j) = Inr s) \<longrightarrow>
          CreateSequenceDescriptions NDEBUG fs mapPath labelDimension d =
            Inl (RuntimeError_InvalidMapFileFormat mapPath k))"
  using CreateSequenceDescriptions_line_error
          [of fs mapPath mapFile k NDEBUG labelDimension "RuntimeError_InvalidMapFileFormat mapPath k" d]
        CreateSequenceDescriptions_line_one_field [OF assms(3), of NDEBUG mapPath labelDimension k]
        assms(1,2)
  by blast

text \<open>The second line \<^verbatim>\<open>foo.png\<close> has no class id: the format error names line 1.\<close>

theorem format_error_fewer_than_two_fields_witness:
  "file_system ''map.txt'' one_field_manifest ''map.txt'' = Some one_field_manifest \<and>
   1 < length (getlines one_field_manifest) \<and>
   field_count (getlines one_field_manifest ! 1) < 2 \<and>
   (\<exists>s. CreateSequenceDescriptions_line False ''map.txt'' 3 0
           (getlines one_field_manifest ! 0) = Inr s) \<and>
   CreateSequenceDescriptions False (file_system ''map.txt'' one_field_manifest) ''map.txt'' 3
     scenario_deserializer = Inl (RuntimeError_InvalidMapFileFormat ''map.txt'' 1)"
proof -
  have h1: "file_system ''map.txt'' one_field_manifest ''map.txt'' = Some one_field_manifest"
    by (simp add: file_system_def)
  have l: "getlines one_field_manifest = [''img0.png'' @ [CHR 0x09] @ ''0'', ''foo.png'']"
    by (simp add: eval_defs)
  have h2: "1 < length (getlines one_field_manifest)"
    by (simp add: l)
  have h3: "field_count (getlines one_field_manifest ! 1) < 2"
    by (simp add: l field_count_def)
  have h4: "\<exists>s. CreateSequenceDescriptions_line False ''map.txt'' 3 0
                  (getlines one_field_manifest ! 0) = Inr s"
    by (simp add: l eval_defs)
  then have h4': "\<forall>j<1. \<exists>s. CreateSequenceDescriptions_line False ''map.txt'' 3 j
                  (getlines one_field_manifest ! j) = Inr s"
    by simp
  show ?thesis
    using format_error_fewer_than_two_fields [where fs = "file_system ''map.txt'' one_field_manifest"
        and mapPath = "''map.txt''" and mapFile = one_field_manifest and k = 1
        and NDEBUG = False and labelDimension = 3 and d = scenario_deserializer] h1 h2 h3 h4 h4'
    by blast
qed

text \<open>
  C5 as stated fails: a line with three fields is no format error. The two columns are
  read, the third field is never looked at, and construction returns the deserializer.
\<close>

theorem format_error_three_fields_counterexample:
  "field_count three_field_line = 3 \<and>
   getlines three_field_line = [three_field_line] \<and>
   (ImageDataDeserializer False (file_system ''map.txt'' three_field_line) scenario_config
      :: error + (string \<times> int) ImageDataDeserializer) =
     Inr \<lparr>m_imageSequences =
            [\<lparr>id' = 0, chunkId = 0, SequenceDescription.numberOfSamples = 1, isValid = True,
              path = ''img0.png'', classId = 0\<rparr>],
          m_sequences = [0],
          m_labelGenerator = TypedLabelGenerator_float [0, 0, 0],
          m_currentImages = [],
          m_labelSampleLayout = ImageLayoutWHC 1 3 1,
          m_featureElementType = et_float\<rparr>"
  by (simp add: eval_defs field_count_def)

text \<open>
  The bound on the class id is an assertion. With assertions enabled, a line whose
  class id, converted to \<^verbatim>\<open>size_t\<close>, is not below \<open>labelDimension\<close> aborts the
  construction of the timeline; when the lines before it are accepted, the failure is
  that of the assertion on the class id.
\<close>

lemma class_id_bound_asserted:
  assumes "fs mapPath = Some mapFile"
    and "k < length (getlines mapFile)"
    and "read_columns (getlines mapFile ! k) = Some (imgPath, clsId)"
    and "stoi clsId = Inr v"
    and "\<not> size_t_of_int v < labelDimension"
  shows "isl (CreateSequenceDescriptions False fs mapPath labelDimension d) \<and>
         ((\<forall>j<k. \<exists>s. CreateSequenceDescriptions_line False mapPath labelDimension j
                        (getlines mapFile ! j) = Inr s) \<longrightarrow>
          CreateSequenceDescriptions False fs mapPath labelDimension d =
            Inl (AssertionFailed ''description.classId < labelDimension''))"
  using CreateSequenceDescriptions_line_error
          [of fs mapPath mapFile k False labelDimension
              "AssertionFailed ''description.classId < labelDimension''" d]
        CreateSequenceDescriptions_line_class_id [OF assms(3,4,5), of mapPath k]
        assms(1,2)
  by blast

text \<open>A row with class 5 and label dimension 3, assertions enabled.\<close>

lemma class_id_bound_asserted_class5:
  "file_system ''map.txt'' class5_line ''map.txt'' = Some class5_line \<and>
   0 < length (getlines class5_line) \<and>
   read_columns (getlines class5_line ! 0) = Some (''img0.png'', ''5'') \<and>
   stoi ''5'' = Inr 5 \<and> \<not> size_t_of_int 5 < 3 \<and>
   CreateSequenceDescriptions False (file_system ''map.txt'' class5_line) ''map.txt'' 3
     scenario_deserializer = Inl (AssertionFailed ''description.classId < labelDimension'')"
proof -
  have h1: "file_system ''map.txt'' class5_line ''map.txt'' = Some class5_line"
    by (simp add: file_system_def)
  have l: "getlines class5_line = [''img0.png'' @ [CHR 0x09] @ ''5'']"
    by (simp add: eval_defs)
  have h2: "0 < length (getlines class5_line)"
    by (simp add: l)
  have h3: "read_columns (getlines class5_line ! 0) = Some (''img0.png'', ''5'')"
    by (simp add: l eval_defs)
  have h4: "stoi ''5'' = Inr 5"
    by (simp add: eval_defs)
  have h5: "\<not> size_t_of_int 5 < 3"
    by (simp add: size_t_of_int_def)
  show ?thesis
    using class_id_bound_asserted [where fs = "file_system ''map.txt'' class5_line"
        and mapPath = "''map.txt''" and mapFile = class5_line and k = 0
        and labelDimension = 3 and d = scenario_deserializer
        and imgPath = "''img0.png''" and clsId = "''5''" and v = 5] h1 h2 h3 h4 h5
    by simp
qed

text \<open>
  C6. Compiled with \<^verbatim>\<open>NDEBUG\<close>, the assertion is gone and nothing else compares the
  class id with the label dimension: the row with class id 5 is not rejected where the
  label dimension is 3. Construction returns a timeline whose entry has class id 5,
  and \<open>GetSequencesById\<close> for that entry writes outside the label buffer.
\<close>

theorem class_id_unchecked_NDEBUG:
  "read_columns class5_line = Some (''img0.png'', ''5'') \<and>
   stoi ''5'' = Inr 5 \<and>
   \<not> size_t_of_int 5 < GetHeight (sampleLayout (configHelper_GetInputs scenario_config ! 1)) \<and>
   ImageDataDeserializer True (file_system ''map.txt'' class5_line) scenario_config
     = Inr class5_deserializer \<and>
   GetSequencesById True scenario_cv class5_deserializer [0] = Inl UndefinedBehaviour"
  by (simp add: eval_defs eval2)

subsection \<open>The constructor\<close>

lemma ImageDataDeserializer_unsupported_label:
  assumes "GetLabelInputIndex c < length (configHelper_GetInputs c)"
    and "GetFeatureInputIndex c < length (configHelper_GetInputs c)"
    and "elementType (configHelper_GetInputs c ! GetLabelInputIndex c) \<noteq> et_float"
    and "elementType (configHelper_GetInputs c ! GetLabelInputIndex c) \<noteq> et_double"
  shows "ImageDataDeserializer NDEBUG fs c =
           (case assert NDEBUG (length (configHelper_GetInputs c) = 2) ''inputs.size() == 2'' of
              Inl e \<Rightarrow> Inl e
            | Inr u \<Rightarrow> Inl (RuntimeError_UnsupportedLabelElementType
                          (elementType (configHelper_GetInputs c ! GetLabelInputIndex c))))"
  using assms
  by (simp add: ImageDataDeserializer_def Let_def vector_at_def split: sum.splits)

lemma ImageDataDeserializer_unreadable:
  assumes "GetLabelInputIndex c < length (configHelper_GetInputs c)"
    and "GetFeatureInputIndex c < length (configHelper_GetInputs c)"
    and "elementType (configHelper_GetInputs c ! GetLabelInputIndex c) = et_float \<or>
         elementType (configHelper_GetInputs c ! GetLabelInputIndex c) = et_double"
    and "fs (GetMapPath c) = None"
  shows "ImageDataDeserializer NDEBUG fs c =
           (case assert NDEBUG (length (configHelper_GetInputs c) = 2) ''inputs.size() == 2'' of
              Inl e \<Rightarrow> Inl e
            | Inr u \<Rightarrow> Inl (RuntimeError_CouldNotOpen (GetMapPath c)))"
  using assms
  by (auto simp: ImageDataDeserializer_def Let_def vector_at_def CreateSequenceDescriptions_def
           split: sum.splits)

text \<open>
  C8. With the label and the feature stream among the declared inputs, construction
  returns an error and no deserializer whenever the element type of the label stream is
  neither \<^verbatim>\<open>et_float\<close> nor \<^verbatim>\<open>et_double\<close>, and whenever the manifest cannot be
  opened. With exactly two inputs the error is the one raised for an unsupported label
  element type, or else the one raised for the file that could not be opened.
\<close>

theorem constructor_configuration_errors:
  fixes c :: ImageConfigHelper and fs :: "string \<Rightarrow> string option" and NDEBUG :: bool
  assumes "GetLabelInputIndex c < length (configHelper_GetInputs c)"
    and "GetFeatureInputIndex c < length (configHelper_GetInputs c)"
  shows "((elementType (configHelper_GetInputs c ! GetLabelInputIndex c) \<noteq> et_float \<and>
           elementType (configHelper_GetInputs c ! GetLabelInputIndex c) \<noteq> et_double) \<or>
          fs (GetMapPath c) = None
            \<longrightarrow> isl (ImageDataDeserializer NDEBUG fs c :: error + 'mat ImageDataDeserializer)) \<and>
         (length (configHelper_GetInputs c) = 2 \<longrightarrow>
            (elementType (configHelper_GetInputs c ! GetLabelInputIndex c) \<noteq> et_float \<and>
             elementType (configHelper_GetInputs c ! GetLabelInputIndex c) \<noteq> et_double \<longrightarrow>
               (ImageDataDeserializer NDEBUG fs c :: error + 'mat ImageDataDeserializer) =
                 Inl (RuntimeError_UnsupportedLabelElementType
                        (elementType (configHelper_GetInputs c ! GetLabelInputIndex c)))) \<and>
            ((elementType (configHelper_GetInputs c ! GetLabelInputIndex c) = et_float \<or>
              elementType (configHelper_GetInputs c ! GetLabelInputIndex c) = et_double) \<and>
             fs (GetMapPath c) = None \<longrightarrow>
               (ImageDataDeserializer NDEBUG fs c :: error + 'mat ImageDataDeserializer) =
                 Inl (RuntimeError_CouldNotOpen (GetMapPath c))))"
proof -
  let ?label = "configHelper_GetInputs c ! GetLabelInputIndex c"
  let ?ctor = "ImageDataDeserializer NDEBUG fs c :: error + 'mat ImageDataDeserializer"
  let ?unsupported = "elementType ?label \<noteq> et_float \<and> elementType ?label \<noteq> et_double"
  let ?unreadable = "fs (GetMapPath c) = None"
  have a: "?ctor =
           (case assert NDEBUG (length (configHelper_GetInputs c) = 2) ''inputs.size() == 2'' of
              Inl e \<Rightarrow> Inl e
            | Inr u \<Rightarrow> Inl (RuntimeError_UnsupportedLabelElementType (elementType ?label)))"
    if "?unsupported"
    using ImageDataDeserializer_unsupported_label [OF assms(1,2), of NDEBUG fs] that by simp
  have b: "?ctor =
           (case assert NDEBUG (length (configHelper_GetInputs c) = 2) ''inputs.size() == 2'' of
              Inl e \<Rightarrow> Inl e
            | Inr u \<Rightarrow> Inl (RuntimeError_CouldNotOpen (GetMapPath c)))"
    if "\<not> ?unsupported" and "?unreadable"
    using ImageDataDeserializer_unreadable [OF assms(1,2), of fs NDEBUG] that by blast
  have two: "assert NDEBUG (length (configHelper_GetInputs c) = 2) ''inputs.size() == 2'' = Inr ()"
    if "length (configHelper_GetInputs c) = 2"
    using that by (simp add: assert_def)
  have 1: "isl ?ctor" if "?unsupported \<or> ?unreadable"
  proof (cases "?unsupported")
    case True
    from a [OF True] show ?thesis by (simp split: sum.splits)
  next
    case False
    with that have "?unreadable" by blast
    from b [OF False this] show ?thesis by (simp split: sum.splits)
  qed
  have 2: "?ctor = Inl (RuntimeError_UnsupportedLabelElementType (elementType ?label))"
    if "length (configHelper_GetInputs c) = 2" and "?unsupported"
    using a [OF that(2)] two [OF that(1)] by simp
  have 3: "?ctor = Inl (RuntimeError_CouldNotOpen (GetMapPath c))"
    if "length (configHelper_GetInputs c) = 2"
      and "(elementType ?label = et_float \<or> elementType ?label = et_double) \<and> ?unreadable"
  proof -
    from that(2) have "\<not> ?unsupported" and "?unreadable" by blast+
    from b [OF this] two [OF that(1)] show ?thesis by simp
  qed
  from 1 2 3 show ?thesis by blast
qed

text \<open>A label stream of a third element type, and a manifest path with no file.\<close>

theorem constructor_configuration_errors_witness:
  "GetLabelInputIndex (scenario_config\<lparr>configHelper_GetInputs :=
        [\<lparr>elementType = et_float, sampleLayout = ImageLayoutWHC 2 2 3\<rparr>,
         \<lparr>elementType = et_other 2, sampleLayout = ImageLayoutWHC 1 3 1\<rparr>]\<rparr>) < 2 \<and>
   (ImageDataDeserializer False (file_system ''map.txt'' scenario_manifest)
      (scenario_config\<lparr>configHelper_GetInputs :=
        [\<lparr>elementType = et_float, sampleLayout = ImageLayoutWHC 2 2 3\<rparr>,
         \<lparr>elementType = et_other 2, sampleLayout = ImageLayoutWHC 1 3 1\<rparr>]\<rparr>)
      :: error + (string \<times> int) ImageDataDeserializer)
     = Inl (RuntimeError_UnsupportedLabelElementType (et_other 2)) \<and>
   file_system ''map.txt'' scenario_manifest ''other.txt'' = None \<and>
   (ImageDataDeserializer False (file_system ''map.txt'' scenario_manifest)
      (scenario_config\<lparr>GetMapPath := ''other.txt''\<rparr>)
      :: error + (string \<times> int) ImageDataDeserializer)
     = Inl (RuntimeError_CouldNotOpen ''other.txt'')"
  using constructor_configuration_errors
          [where c = "scenario_config\<lparr>configHelper_GetInputs :=
              [\<lparr>elementType = et_float, sampleLayout = ImageLayoutWHC 2 2 3\<rparr>,
               \<lparr>elementType = et_other 2, sampleLayout = ImageLayoutWHC 1 3 1\<rparr>]\<rparr>"
            and fs = "file_system ''map.txt'' scenario_manifest" and NDEBUG = False
            and 'mat = "string \<times> int"]
        constructor_configuration_errors
          [where c = "scenario_config\<lparr>GetMapPath := ''other.txt''\<rparr>"
            and fs = "file_system ''map.txt'' scenario_manifest" and NDEBUG = False
            and 'mat = "string \<times> int"]
  by (simp add: scenario_config_def file_system_def)

subsection \<open>GetSequencesById\<close>

lemma GetLabelDataFor_in_range:
  "c < length (m_labelData g) \<Longrightarrow> GetLabelDataFor g c = Inr (LabelData, generator_after g c)"
  by (cases g) (simp_all add: TypedLabelGenerator_GetLabelDataFor_def)

lemma m_labelData_generator_after:
  "m_labelData (generator_after g c) = (replicate (length (m_labelData g)) 0)[c := 1]"
  by (cases g) simp_all

lemma length_m_labelData_foldl:
  "length (m_labelData (foldl generator_after g cs)) = length (m_labelData g)"
  by (induction cs arbitrary: g) (simp_all add: m_labelData_generator_after)

lemma m_labelData_foldl_last:
  "cs \<noteq> [] \<Longrightarrow>
   m_labelData (foldl generator_after g cs) = (replicate (length (m_labelData g)) 0)[last cs := 1]"
proof (induction cs rule: rev_induct)
  case Nil
  then show ?case by simp
next
  case (snoc c cs)
  show ?case
    by (simp add: m_labelData_generator_after length_m_labelData_foldl)
qed

lemma decoded_image_cong:
  "m_imageSequences d' = m_imageSequences d \<Longrightarrow> m_featureElementType d' = m_featureElementType d \<Longrightarrow>
   decoded_image cv d' i = decoded_image cv d i"
  by (simp add: decoded_image_def)

lemma pair_for_cong:
  "m_imageSequences d' = m_imageSequences d \<Longrightarrow> m_featureElementType d' = m_featureElementType d \<Longrightarrow>
   m_labelSampleLayout d' = m_labelSampleLayout d \<Longrightarrow>
   pair_for cv d' k i = pair_for cv d k i"
  by (simp add: pair_for_def decoded_image_def)

lemma pairs_for_cong:
  "m_imageSequences d' = m_imageSequences d \<Longrightarrow> m_featureElementType d' = m_featureElementType d \<Longrightarrow>
   m_labelSampleLayout d' = m_labelSampleLayout d \<Longrightarrow>
   pairs_for cv d' k ids = pairs_for cv d k ids"
  by (induction ids arbitrary: k) (simp_all add: pair_for_cong [of d' d])

lemma length_pairs_for: "length (pairs_for cv d p ids) = length ids"
  by (induction ids arbitrary: p) simp_all

lemma nth_pairs_for:
  "k < length ids \<Longrightarrow> pairs_for cv d p ids ! k = pair_for cv d (p + k) (ids ! k)"
proof (induction ids arbitrary: p k)
  case Nil
  then show ?case by simp
next
  case (Cons i ids)
  then show ?case by (cases k) simp_all
qed

lemma GetSequencesById_body_Inr:
  assumes "i < length (m_imageSequences d)"
    and "classId (m_imageSequences d ! i) < length (m_labelData (m_labelGenerator d))"
    and "NDEBUG \<or> isContinuous cv (imread cv (path (m_imageSequences d ! i)) IMREAD_COLOR)"
  shows "GetSequencesById_body NDEBUG cv i d =
           Inr (pair_for cv d (length (m_currentImages d)) i,
                d\<lparr>m_currentImages := m_currentImages d @ [decoded_image cv d i],
                  m_labelGenerator :=
                    generator_after (m_labelGenerator d) (classId (m_imageSequences d ! i))\<rparr>)"
  using assms
  by (auto simp: GetSequencesById_body_def assert_def vector_at_def Let_def pair_for_def
        decoded_image_def GetLabelDataFor_in_range)

lemma GetSequencesById_loop_Inr:
  assumes "\<forall>i\<in>set ids. i < length (m_imageSequences d) \<and>
             classId (m_imageSequences d ! i) < length (m_labelData (m_labelGenerator d)) \<and>
             (NDEBUG \<or> isContinuous cv (imread cv (path (m_imageSequences d ! i)) IMREAD_COLOR))"
  shows "GetSequencesById_loop NDEBUG cv ids d result =
           Inr (result @ pairs_for cv d (length (m_currentImages d)) ids,
                d\<lparr>m_currentImages := m_currentImages d @ map (decoded_image cv d) ids,
                  m_labelGenerator :=
                    foldl generator_after (m_labelGenerator d)
                      (map (\<lambda>i. classId (m_imageSequences d ! i)) ids)\<rparr>)"
  using assms
proof (induction ids arbitrary: d result)
  case Nil
  then show ?case by simp
next
  case (Cons i ids)
  let ?d1 = "d\<lparr>m_currentImages := m_currentImages d @ [decoded_image cv d i],
               m_labelGenerator :=
                 generator_after (m_labelGenerator d) (classId (m_imageSequences d ! i))\<rparr>"
  have body: "GetSequencesById_body NDEBUG cv i d =
                Inr (pair_for cv d (length (m_currentImages d)) i, ?d1)"
    using Cons.prems by (intro GetSequencesById_body_Inr) simp_all
  have "\<forall>j\<in>set ids. j < length (m_imageSequences ?d1) \<and>
             classId (m_imageSequences ?d1 ! j) < length (m_labelData (m_labelGenerator ?d1)) \<and>
             (NDEBUG \<or> isContinuous cv (imread cv (path (m_imageSequences ?d1 ! j)) IMREAD_COLOR))"
    using Cons.prems by (simp add: m_labelData_generator_after)
  note IH = Cons.IH [OF this, of "result @ [pair_for cv d (length (m_currentImages d)) i]"]
  have p: "pairs_for cv ?d1 k ids = pairs_for cv d k ids" for k
    by (rule pairs_for_cong) simp_all
  have m: "map (decoded_image cv ?d1) ids = map (decoded_image cv d) ids"
    by (simp add: decoded_image_def)
  show ?case
    by (simp add: body IH p m)
qed

lemma GetSequencesById_Inr:
  assumes "ids \<noteq> []"
    and "\<forall>i\<in>set ids. i < length (m_imageSequences d) \<and>
             classId (m_imageSequences d ! i) < length (m_labelData (m_labelGenerator d)) \<and>
             (NDEBUG \<or> isContinuous cv (imread cv (path (m_imageSequences d ! i)) IMREAD_COLOR))"
  shows "GetSequencesById NDEBUG cv d ids =
           Inr (pairs_for cv d 0 ids,
                d\<lparr>m_currentImages := map (decoded_image cv d) ids,
                  m_labelGenerator :=
                    foldl generator_after (m_labelGenerator d)
                      (map (\<lambda>i. classId (m_imageSequences d ! i)) ids)\<rparr>)"
proof -
  let ?d0 = "d\<lparr>m_currentImages := []\<rparr>"
  have "\<forall>i\<in>set ids. i < length (m_imageSequences ?d0) \<and>
             classId (m_imageSequences ?d0 ! i) < length (m_labelData (m_labelGenerator ?d0)) \<and>
             (NDEBUG \<or> isContinuous cv (imread cv (path (m_imageSequences ?d0 ! i)) IMREAD_COLOR))"
    using assms(2) by simp
  note l = GetSequencesById_loop_Inr [OF this, of "[]"]
  have p: "pairs_for cv ?d0 0 ids = pairs_for cv d 0 ids"
    by (rule pairs_for_cong) simp_all
  have m: "map (decoded_image cv ?d0) ids = map (decoded_image cv d) ids"
    by (simp add: decoded_image_def)
  show ?thesis
    using assms(1) by (simp add: GetSequencesById_def assert_def l p m)
qed

lemma GetSequencesById_well_formed:
  assumes "well_formed d" and "GetSequencesById NDEBUG cv d ids = Inr (result, d')"
    and "ids \<noteq> []"
    and "\<forall>i\<in>set ids. i < length (m_imageSequences d) \<and>
           (NDEBUG \<or> isContinuous cv (imread cv (path (m_imageSequences d ! i)) IMREAD_COLOR))"
  shows "well_formed d'"
proof -
  have "\<forall>i\<in>set ids. i < length (m_imageSequences d) \<and>
             classId (m_imageSequences d ! i) < length (m_labelData (m_labelGenerator d)) \<and>
             (NDEBUG \<or> isContinuous cv (imread cv (path (m_imageSequences d ! i)) IMREAD_COLOR))"
    using assms(1,4) by (simp add: well_formed_def)
  from GetSequencesById_Inr [OF assms(3) this] assms(2)
  have "d' = d\<lparr>m_currentImages := map (decoded_image cv d) ids,
                  m_labelGenerator :=
                    foldl generator_after (m_labelGenerator d)
                      (map (\<lambda>i. classId (m_imageSequences d ! i)) ids)\<rparr>"
    by simp
  with assms(1) show ?thesis
    by (simp add: well_formed_def length_m_labelData_foldl)
qed

lemma ImageDataDeserializer_well_formed:
  assumes "ImageDataDeserializer False fs configHelper = Inr d"
  shows "well_formed d"
proof -
  from ImageDataDeserializer_Inr [OF assms]
  obtain label :: InputDescription and feature :: InputDescription and generator where
    g: "length (m_labelData generator) = GetHeight (sampleLayout label)"
    and c: "CreateSequenceDescriptions False fs (GetMapPath configHelper) (GetHeight (sampleLayout label))
             \<lparr>m_imageSequences = [], m_sequences = [], m_labelGenerator = generator,
              m_currentImages = [], m_labelSampleLayout = sampleLayout label,
              m_featureElementType = elementType feature\<rparr> = Inr d"
    by blast
  from c obtain mapFile where fs: "fs (GetMapPath configHelper) = Some mapFile"
    by (auto simp: CreateSequenceDescriptions_def split: option.splits)
  from CreateSequenceDescriptions_Inr [OF c fs] obtain descs where
    seqs: "m_imageSequences d = descs" and ptrs: "m_sequences d = [0..<length descs]"
    and gen: "m_labelGenerator d = generator"
    and len: "length descs = length (getlines mapFile)"
    and lines: "\<forall>k<length (getlines mapFile).
           CreateSequenceDescriptions_line False (GetMapPath configHelper)
             (GetHeight (sampleLayout label)) k (getlines mapFile ! k) = Inr (descs ! k)"
    by auto
  have "\<forall>s\<in>set descs. classId s < GetHeight (sampleLayout label)"
  proof
    fix s assume "s \<in> set descs"
    then obtain k where k: "k < length descs" "s = descs ! k"
      by (auto simp: in_set_conv_nth)
    with lines len have
      "CreateSequenceDescriptions_line False (GetMapPath configHelper)
             (GetHeight (sampleLayout label)) k (getlines mapFile ! k) = Inr s"
      by simp
    from CreateSequenceDescriptions_line_fields(5) [OF this] show "classId s < GetHeight (sampleLayout label)"
      by simp
  qed
  then show ?thesis
    by (simp add: well_formed_def seqs ptrs gen g)
qed

lemma ImageDataDeserializer_timeline_in_order:
  assumes "ImageDataDeserializer NDEBUG fs configHelper = Inr d"
  shows "m_sequences d = [0..<length (m_imageSequences d)]"
proof -
  from ImageDataDeserializer_Inr [OF assms]
  obtain label :: InputDescription and feature :: InputDescription and generator where
    c: "CreateSequenceDescriptions NDEBUG fs (GetMapPath configHelper) (GetHeight (sampleLayout label))
             \<lparr>m_imageSequences = [], m_sequences = [], m_labelGenerator = generator,
              m_currentImages = [], m_labelSampleLayout = sampleLayout label,
              m_featureElementType = elementType feature\<rparr> = Inr d"
    by blast
  from c obtain mapFile where fs: "fs (GetMapPath configHelper) = Some mapFile"
    by (auto simp: CreateSequenceDescriptions_def split: option.splits)
  from CreateSequenceDescriptions_Inr [OF c fs] show ?thesis by auto
qed

lemma well_formed_lookup:
  assumes "well_formed d" and "i < length (GetSequenceDescriptions d)"
  shows "i < length (m_imageSequences d)" and "lookup d i = Inr (m_imageSequences d ! i)"
    and "classId (m_imageSequences d ! i) < length (m_labelData (m_labelGenerator d))"
  using assms
  by (simp_all add: well_formed_def GetSequenceDescriptions_def lookup_def vector_at_def)

lemma well_formed_requests:
  assumes "well_formed d"
    and "\<forall>i\<in>set ids. i < length (GetSequenceDescriptions d)"
    and "NDEBUG \<or> (\<forall>i\<in>set ids. isContinuous cv (imread cv (path (m_imageSequences d ! i)) IMREAD_COLOR))"
  shows "\<forall>i\<in>set ids. i < length (m_imageSequences d) \<and>
             classId (m_imageSequences d ! i) < length (m_labelData (m_labelGenerator d)) \<and>
             (NDEBUG \<or> isContinuous cv (imread cv (path (m_imageSequences d ! i)) IMREAD_COLOR))"
  using assms well_formed_lookup(1,3) [OF assms(1)] by blast

lemma one_hot_neq:
  fixes n a b :: nat
  assumes "a < n" and "a \<noteq> b"
  shows "(replicate n (0::real))[b := 1] \<noteq> (replicate n 0)[a := 1]"
proof
  assume "(replicate n (0::real))[b := 1] = (replicate n 0)[a := 1]"
  then have "(replicate n (0::real))[b := 1] ! a = (replicate n 0)[a := 1] ! a" by simp
  with assms show False by simp
qed

text \<open>
  C4. On a well-formed deserializer, for a non-empty list of ids below the length of
  the timeline (and images that are continuous, where assertions are enabled),
  \<open>GetSequencesById\<close> returns one pair per id, in the order of the ids. In the pair at
  position \<open>k\<close> the feature payload points to slot \<open>k\<close> of \<^verbatim>\<open>m_currentImages\<close>, which
  holds the matrix read from the path of the \<open>k\<close>-th id and converted to the feature
  element type, its layout is that of this matrix, and both payloads carry the
  \<open>numberOfSamples\<close> of the description of the \<open>k\<close>-th id. The label payload is the
  pointer into the one buffer of the label generator, with the label layout. In the
  batch as it is returned that buffer is the one-hot vector of the class id of the
  last id: a pair whose description has another class id does not read the label of its
  own class id. There the code departs from the claim.
\<close>

theorem GetSequencesById_returned_batch:
  assumes "well_formed d"
    and "ids \<noteq> []"
    and "\<forall>i\<in>set ids. i < length (GetSequenceDescriptions d)"
    and "NDEBUG \<or> (\<forall>i\<in>set ids. isContinuous cv (imread cv (path (m_imageSequences d ! i)) IMREAD_COLOR))"
  shows "\<exists>result d' sl.
           GetSequencesById NDEBUG cv d ids = Inr (result, d') \<and>
           length result = length ids \<and>
           length (m_currentImages d') = length ids \<and>
           lookup d (last ids) = Inr sl \<and>
           (\<forall>k<length ids. \<exists>s image label.
              lookup d (ids ! k) = Inr s \<and>
              result ! k = [image, label] \<and>
              data image = MatData k \<and>
              m_currentImages d' ! k =
                convert_element_type cv (m_featureElementType d) (imread cv (path s) IMREAD_COLOR) \<and>
              layout image =
                ImageLayoutWHC (size_t_of_int (cols cv (m_currentImages d' ! k)))
                  (size_t_of_int (rows cv (m_currentImages d' ! k)))
                  (size_t_of_int (channels cv (m_currentImages d' ! k))) \<and>
              Sequence.numberOfSamples image = SequenceDescription.numberOfSamples s \<and>
              data label = LabelData \<and>
              layout label = m_labelSampleLayout d \<and>
              Sequence.numberOfSamples label = SequenceDescription.numberOfSamples s \<and>
              read_label d' (data label) =
                Some ((replicate (length (m_labelData (m_labelGenerator d))) 0)[classId sl := 1]) \<and>
              (classId s \<noteq> classId sl \<longrightarrow>
                 read_label d' (data label) \<noteq>
                   Some ((replicate (length (m_labelData (m_labelGenerator d))) 0)[classId s := 1])))"
proof -
  let ?c = "\<lambda>i. classId (m_imageSequences d ! i)"
  let ?n = "length (m_labelData (m_labelGenerator d))"
  let ?d' = "d\<lparr>m_currentImages := map (decoded_image cv d) ids,
               m_labelGenerator := foldl generator_after (m_labelGenerator d) (map ?c ids)\<rparr>"
  let ?sl = "m_imageSequences d ! last ids"
  note req = well_formed_requests [OF assms(1,3,4)]
  have run: "GetSequencesById NDEBUG cv d ids = Inr (pairs_for cv d 0 ids, ?d')"
    by (rule GetSequencesById_Inr [OF assms(2) req])
  have "last ids \<in> set ids" using assms(2) by simp
  with assms(3) have "last ids < length (GetSequenceDescriptions d)" by blast
  note last = well_formed_lookup(2) [OF assms(1) this]
  have "map ?c ids \<noteq> []" using assms(2) by simp
  from m_labelData_foldl_last [OF this, of "m_labelGenerator d"] assms(2)
  have buf: "m_labelData (foldl generator_after (m_labelGenerator d) (map ?c ids)) =
               (replicate ?n 0)[classId ?sl := 1]"
    by (simp add: last_map)
  have each: "\<exists>s image label.
              lookup d (ids ! k) = Inr s \<and>
              pairs_for cv d 0 ids ! k = [image, label] \<and>
              data image = MatData k \<and>
              m_currentImages ?d' ! k =
                convert_element_type cv (m_featureElementType d) (imread cv (path s) IMREAD_COLOR) \<and>
              layout image =
                ImageLayoutWHC (size_t_of_int (cols cv (m_currentImages ?d' ! k)))
                  (size_t_of_int (rows cv (m_currentImages ?d' ! k)))
                  (size_t_of_int (channels cv (m_currentImages ?d' ! k))) \<and>
              Sequence.numberOfSamples image = SequenceDescription.numberOfSamples s \<and>
              data label = LabelData \<and>
              layout label = m_labelSampleLayout d \<and>
              Sequence.numberOfSamples label = SequenceDescription.numberOfSamples s \<and>
              read_label ?d' (data label) = Some ((replicate ?n 0)[classId ?sl := 1]) \<and>
              (classId s \<noteq> classId ?sl \<longrightarrow>
                 read_label ?d' (data label) \<noteq> Some ((replicate ?n 0)[classId s := 1]))"
    if k: "k < length ids" for k
  proof -
    let ?s = "m_imageSequences d ! (ids ! k)"
    let ?image = "pair_for cv d k (ids ! k) ! 0" and ?label = "pair_for cv d k (ids ! k) ! 1"
    have mem: "ids ! k \<in> set ids" using k by simp
    with assms(3) have in_range: "ids ! k < length (GetSequenceDescriptions d)" by blast
    note lk = well_formed_lookup(2) [OF assms(1) in_range]
    note cl = well_formed_lookup(3) [OF assms(1) in_range]
    have pk: "pairs_for cv d 0 ids ! k = pair_for cv d k (ids ! k)"
      using nth_pairs_for [OF k, of cv d 0] by simp
    have slot: "m_currentImages ?d' ! k = decoded_image cv d (ids ! k)"
      using k by simp
    have 1: "pairs_for cv d 0 ids ! k = [?image, ?label]"
      by (simp add: pk pair_for_def)
    have 2: "data ?image = MatData k"
      and 3: "Sequence.numberOfSamples ?image = SequenceDescription.numberOfSamples ?s"
      and 4: "data ?label = LabelData"
      and 5: "layout ?label = m_labelSampleLayout d"
      and 6: "Sequence.numberOfSamples ?label = SequenceDescription.numberOfSamples ?s"
      by (simp_all add: pair_for_def)
    have 7: "m_currentImages ?d' ! k =
               convert_element_type cv (m_featureElementType d) (imread cv (path ?s) IMREAD_COLOR)"
      using k by (simp add: decoded_image_def)
    have 8: "layout ?image =
               ImageLayoutWHC (size_t_of_int (cols cv (m_currentImages ?d' ! k)))
                 (size_t_of_int (rows cv (m_currentImages ?d' ! k)))
                 (size_t_of_int (channels cv (m_currentImages ?d' ! k)))"
      using k by (simp add: pair_for_def)
    have 9: "read_label ?d' (data ?label) = Some ((replicate ?n 0)[classId ?sl := 1])"
      using buf by (simp add: pair_for_def)
    have 10: "classId ?s \<noteq> classId ?sl \<longrightarrow>
                read_label ?d' (data ?label) \<noteq> Some ((replicate ?n 0)[classId ?s := 1])"
      using one_hot_neq [OF cl, of "classId ?sl"] unfolding 9 by simp
    from lk 1 2 3 4 5 6 7 8 9 10 show ?thesis by blast
  qed
  have "length (pairs_for cv d 0 ids) = length ids" by (rule length_pairs_for)
  moreover have "length (m_currentImages ?d') = length ids" by simp
  ultimately show ?thesis
    using run last each by blast
qed

text \<open>
  The scenario, both ids of the two-row manifest: the label of pair 0, whose
  description has class id 0, reads \<open>[0, 0, 1]\<close>.
\<close>

theorem GetSequencesById_returned_batch_witness:
  "well_formed scenario_deserializer \<and> [0, 1] \<noteq> ([]::nat list) \<and>
   0 < length (GetSequenceDescriptions scenario_deserializer) \<and>
   1 < length (GetSequenceDescriptions scenario_deserializer) \<and>
   isContinuous scenario_cv
     (imread scenario_cv (path (m_imageSequences scenario_deserializer ! 0)) IMREAD_COLOR) \<and>
   isContinuous scenario_cv
     (imread scenario_cv (path (m_imageSequences scenario_deserializer ! 1)) IMREAD_COLOR) \<and>
   (\<exists>result d' s sl image label.
      GetSequencesById False scenario_cv scenario_deserializer [0, 1] = Inr (result, d') \<and>
      length result = 2 \<and>
      lookup scenario_deserializer 1 = Inr sl \<and> classId sl = 2 \<and>
      lookup scenario_deserializer 0 = Inr s \<and> classId s = 0 \<and>
      result ! 0 = [image, label] \<and>
      data image = MatData 0 \<and>
      m_currentImages d' ! 0 = (''img0.png'', 5) \<and>
      Sequence.numberOfSamples image = 1 \<and>
      Sequence.numberOfSamples label = 1 \<and>
      read_label d' (data label) = Some [0, 0, 1] \<and>
      read_label d' (data label) \<noteq> Some [1, 0, 0])"
proof -
  have h1: "well_formed scenario_deserializer"
    by (simp add: well_formed_def scenario_deserializer_def)
  have h2: "[0, 1] \<noteq> ([]::nat list)" by simp
  have h3: "0 < length (GetSequenceDescriptions scenario_deserializer)"
    "1 < length (GetSequenceDescriptions scenario_deserializer)"
    by (simp_all add: GetSequenceDescriptions_def scenario_deserializer_def)
  have h4: "isContinuous scenario_cv
       (imread scenario_cv (path (m_imageSequences scenario_deserializer ! 0)) IMREAD_COLOR)"
    "isContinuous scenario_cv
       (imread scenario_cv (path (m_imageSequences scenario_deserializer ! 1)) IMREAD_COLOR)"
    by (simp_all add: scenario_cv_def)
  from h3 have h3': "\<forall>i\<in>set [0, 1]. i < length (GetSequenceDescriptions scenario_deserializer)"
    by simp
  from h4 have h4': "False \<or> (\<forall>i\<in>set [0, 1]. isContinuous scenario_cv
        (imread scenario_cv (path (m_imageSequences scenario_deserializer ! i)) IMREAD_COLOR))"
    by simp
  have l0: "lookup scenario_deserializer 0 = Inr (m_imageSequences scenario_deserializer ! 0)"
    and l1: "lookup scenario_deserializer 1 = Inr (m_imageSequences scenario_deserializer ! 1)"
    by (simp_all add: lookup_def GetSequenceDescriptions_def vector_at_def scenario_deserializer_def)
  have conv: "convert_element_type scenario_cv et_float (imread scenario_cv ''img0.png'' IMREAD_COLOR)
                = (''img0.png'', 5)"
    by (simp add: convert_element_type_def scenario_cv_def CV_MAKETYPE_def CV_32F_def IMREAD_COLOR_def)
  from GetSequencesById_returned_batch [OF h1 h2 h3' h4'] obtain result d' sl where
    r: "GetSequencesById False scenario_cv scenario_deserializer [0, 1] = Inr (result, d')"
    and lr: "length result = length [0, 1::nat]"
    and sl: "lookup scenario_deserializer (last [0, 1]) = Inr sl"
    and all: "\<forall>k<length [0, 1::nat]. \<exists>s image label.
              lookup scenario_deserializer ([0, 1] ! k) = Inr s \<and>
              result ! k = [image, label] \<and>
              data image = MatData k \<and>
              m_currentImages d' ! k =
                convert_element_type scenario_cv (m_featureElementType scenario_deserializer)
                  (imread scenario_cv (path s) IMREAD_COLOR) \<and>
              layout image =
                ImageLayoutWHC (size_t_of_int (cols scenario_cv (m_currentImages d' ! k)))
                  (size_t_of_int (rows scenario_cv (m_currentImages d' ! k)))
                  (size_t_of_int (channels scenario_cv (m_currentImages d' ! k))) \<and>
              Sequence.numberOfSamples image = SequenceDescription.numberOfSamples s \<and>
              data label = LabelData \<and>
              layout label = m_labelSampleLayout scenario_deserializer \<and>
              Sequence.numberOfSamples label = SequenceDescription.numberOfSamples s \<and>
              read_label d' (data label) =
                Some ((replicate (length (m_labelData (m_labelGenerator scenario_deserializer))) 0)
                        [classId sl := 1]) \<and>
              (classId s \<noteq> classId sl \<longrightarrow>
                 read_label d' (data label) \<noteq>
                   Some ((replicate (length (m_labelData (m_labelGenerator scenario_deserializer))) 0)
                           [classId s := 1]))"
    by blast
  from sl l1 have sl_eq: "sl = m_imageSequences scenario_deserializer ! 1" by simp
  have "0 < length [0, 1::nat]" by simp
  from all [rule_format, OF this] obtain s image label where
    k0: "lookup scenario_deserializer ([0, 1] ! 0) = Inr s"
      "result ! 0 = [image, label]"
      "data image = MatData 0"
      "m_currentImages d' ! 0 =
         convert_element_type scenario_cv (m_featureElementType scenario_deserializer)
           (imread scenario_cv (path s) IMREAD_COLOR)"
      "Sequence.numberOfSamples image = SequenceDescription.numberOfSamples s"
      "Sequence.numberOfSamples label = SequenceDescription.numberOfSamples s"
      "read_label d' (data label) =
         Some ((replicate (length (m_labelData (m_labelGenerator scenario_deserializer))) 0)
                 [classId sl := 1])"
      "classId s \<noteq> classId sl \<longrightarrow>
         read_label d' (data label) \<noteq>
           Some ((replicate (length (m_labelData (m_labelGenerator scenario_deserializer))) 0)
                   [classId s := 1])"
    by blast
  from k0(1) l0 have s_eq: "s = m_imageSequences scenario_deserializer ! 0" by simp
  have "length result = 2" using lr by simp
  moreover have "lookup scenario_deserializer 1 = Inr sl" "classId sl = 2"
    using l1 sl_eq by (simp_all add: scenario_deserializer_def)
  moreover have "lookup scenario_deserializer 0 = Inr s" "classId s = 0"
    using l0 s_eq by (simp_all add: scenario_deserializer_def)
  moreover have "m_currentImages d' ! 0 = (''img0.png'', 5)"
    using k0(4) conv by (simp add: s_eq scenario_deserializer_def)
  moreover have "Sequence.numberOfSamples image = 1" "Sequence.numberOfSamples label = 1"
    using k0(5,6) by (simp_all add: s_eq scenario_deserializer_def)
  moreover have "read_label d' (data label) = Some [0, 0, 1]"
    using k0(7) by (simp add: sl_eq scenario_deserializer_def numeral_3_eq_3)
  moreover have "read_label d' (data label) \<noteq> Some [1, 0, 0]"
    using k0(8) by (simp add: s_eq sl_eq scenario_deserializer_def numeral_3_eq_3)
  ultimately have "\<exists>result d' s sl image label.
      GetSequencesById False scenario_cv scenario_deserializer [0, 1] = Inr (result, d') \<and>
      length result = 2 \<and>
      lookup scenario_deserializer 1 = Inr sl \<and> classId sl = 2 \<and>
      lookup scenario_deserializer 0 = Inr s \<and> classId s = 0 \<and>
      result ! 0 = [image, label] \<and>
      data image = MatData 0 \<and>
      m_currentImages d' ! 0 = (''img0.png'', 5) \<and>
      Sequence.numberOfSamples image = 1 \<and>
      Sequence.numberOfSamples label = 1 \<and>
      read_label d' (data label) = Some [0, 0, 1] \<and>
      read_label d' (data label) \<noteq> Some [1, 0, 0]"
    using r k0(2,3) by blast
  with h1 h2 h3 h4 show ?thesis by blast
qed

text \<open>
  C7. Of two successive calls on one deserializer, the second starts by emptying
  \<^verbatim>\<open>m_currentImages\<close>: it returns what it would return had nothing been retained.
  When it has returned, \<^verbatim>\<open>m_currentImages\<close> holds exactly the decoded matrices of
  the ids of the second batch, one per id and in their order, and the \<open>k\<close>-th feature
  payload returned points to slot \<open>k\<close>.
\<close>

theorem GetSequencesById_retains_one_batch:
  assumes "well_formed d"
    and "batchA \<noteq> []" and "batchB \<noteq> []"
    and "\<forall>i\<in>set batchA \<union> set batchB. i < length (GetSequenceDescriptions d)"
    and "NDEBUG \<or> (\<forall>i\<in>set batchA \<union> set batchB.
                      isContinuous cv (imread cv (path (m_imageSequences d ! i)) IMREAD_COLOR))"
  shows "\<exists>rA dA rB dB.
           GetSequencesById NDEBUG cv d batchA = Inr (rA, dA) \<and>
           m_currentImages dA = map (decoded_image cv d) batchA \<and>
           GetSequencesById NDEBUG cv dA batchB = Inr (rB, dB) \<and>
           GetSequencesById NDEBUG cv (dA\<lparr>m_currentImages := []\<rparr>) batchB = Inr (rB, dB) \<and>
           m_currentImages dB = map (decoded_image cv d) batchB \<and>
           length (m_currentImages dB) = length batchB \<and>
           (\<forall>k<length batchB. data (rB ! k ! 0) = MatData k)"
proof -
  let ?c = "\<lambda>i. classId (m_imageSequences d ! i)"
  let ?dA = "d\<lparr>m_currentImages := map (decoded_image cv d) batchA,
               m_labelGenerator := foldl generator_after (m_labelGenerator d) (map ?c batchA)\<rparr>"
  let ?dB = "?dA\<lparr>m_currentImages := map (decoded_image cv ?dA) batchB,
               m_labelGenerator := foldl generator_after (m_labelGenerator ?dA)
                 (map (\<lambda>i. classId (m_imageSequences ?dA ! i)) batchB)\<rparr>"
  have a3: "\<forall>i\<in>set batchA. i < length (GetSequenceDescriptions d)"
    and b3: "\<forall>i\<in>set batchB. i < length (GetSequenceDescriptions d)"
    using assms(4) by blast+
  have a4: "NDEBUG \<or> (\<forall>i\<in>set batchA. isContinuous cv (imread cv (path (m_imageSequences d ! i)) IMREAD_COLOR))"
    and b4: "NDEBUG \<or> (\<forall>i\<in>set batchB. isContinuous cv (imread cv (path (m_imageSequences d ! i)) IMREAD_COLOR))"
    using assms(5) by blast+
  note reqA = well_formed_requests [OF assms(1) a3 a4]
  note reqB = well_formed_requests [OF assms(1) b3 b4]
  have runA: "GetSequencesById NDEBUG cv d batchA = Inr (pairs_for cv d 0 batchA, ?dA)"
    by (rule GetSequencesById_Inr [OF assms(2) reqA])
  have "\<forall>i\<in>set batchB. i < length (m_imageSequences ?dA) \<and>
             classId (m_imageSequences ?dA ! i) < length (m_labelData (m_labelGenerator ?dA)) \<and>
             (NDEBUG \<or> isContinuous cv (imread cv (path (m_imageSequences ?dA ! i)) IMREAD_COLOR))"
    using reqB by (simp add: length_m_labelData_foldl)
  note runB = GetSequencesById_Inr [OF assms(3) this]
  have clear: "GetSequencesById NDEBUG cv (?dA\<lparr>m_currentImages := []\<rparr>) batchB =
               GetSequencesById NDEBUG cv ?dA batchB"
    by (simp add: GetSequencesById_def cong: sum.case_cong)
  have poolB: "m_currentImages ?dB = map (decoded_image cv d) batchB"
    by (simp add: decoded_image_def)
  have slots: "\<forall>k<length batchB. data (pairs_for cv ?dA 0 batchB ! k ! 0) = MatData k"
    by (simp add: nth_pairs_for pair_for_def)
  have "m_currentImages ?dA = map (decoded_image cv d) batchA" by simp
  moreover have "length (m_currentImages ?dB) = length batchB" by simp
  ultimately show ?thesis
    using runA runB clear poolB slots by metis
qed

text \<open>A batch with id 0, then a batch with ids 1 and 0.\<close>

theorem GetSequencesById_retains_one_batch_witness:
  "well_formed scenario_deserializer \<and> [0] \<noteq> ([]::nat list) \<and> [1, 0] \<noteq> ([]::nat list) \<and>
   0 < length (GetSequenceDescriptions scenario_deserializer) \<and>
   1 < length (GetSequenceDescriptions scenario_deserializer) \<and>
   isContinuous scenario_cv
     (imread scenario_cv (path (m_imageSequences scenario_deserializer ! 0)) IMREAD_COLOR) \<and>
   isContinuous scenario_cv
     (imread scenario_cv (path (m_imageSequences scenario_deserializer ! 1)) IMREAD_COLOR) \<and>
   (\<exists>rA dA rB dB.
      GetSequencesById False scenario_cv scenario_deserializer [0] = Inr (rA, dA) \<and>
      m_currentImages dA = [(''img0.png'', 5)] \<and>
      GetSequencesById False scenario_cv dA [1, 0] = Inr (rB, dB) \<and>
      m_currentImages dB = [(''img1.png'', 5), (''img0.png'', 5)] \<and>
      length (m_currentImages dB) = 2)"
proof -
  have h1: "well_formed scenario_deserializer"
    by (simp add: well_formed_def scenario_deserializer_def)
  have h2: "[0] \<noteq> ([]::nat list)" and h3: "[1, 0] \<noteq> ([]::nat list)" by simp_all
  have h4: "0 < length (GetSequenceDescriptions scenario_deserializer)"
    "1 < length (GetSequenceDescriptions scenario_deserializer)"
    by (simp_all add: GetSequenceDescriptions_def scenario_deserializer_def)
  have h5: "isContinuous scenario_cv
       (imread scenario_cv (path (m_imageSequences scenario_deserializer ! 0)) IMREAD_COLOR)"
    "isContinuous scenario_cv
       (imread scenario_cv (path (m_imageSequences scenario_deserializer ! 1)) IMREAD_COLOR)"
    by (simp_all add: scenario_cv_def)
  from h4 have h4': "\<forall>i\<in>set [0] \<union> set [1, 0]. i < length (GetSequenceDescriptions scenario_deserializer)"
    by simp
  from h5 have h5': "False \<or> (\<forall>i\<in>set [0] \<union> set [1, 0]. isContinuous scenario_cv
        (imread scenario_cv (path (m_imageSequences scenario_deserializer ! i)) IMREAD_COLOR))"
    by simp
  have a: "map (decoded_image scenario_cv scenario_deserializer) [0] = [(''img0.png'', 5)]"
    and b: "map (decoded_image scenario_cv scenario_deserializer) [1, 0]
              = [(''img1.png'', 5), (''img0.png'', 5)]"
    by (simp_all add: decoded_image_def convert_element_type_def scenario_cv_def
          scenario_deserializer_def CV_MAKETYPE_def CV_32F_def IMREAD_COLOR_def)
  from GetSequencesById_retains_one_batch [OF h1 h2 h3 h4' h5'] obtain rA dA rB dB where
    "GetSequencesById False scenario_cv scenario_deserializer [0] = Inr (rA, dA)"
    "m_currentImages dA = map (decoded_image scenario_cv scenario_deserializer) [0]"
    "GetSequencesById False scenario_cv dA [1, 0] = Inr (rB, dB)"
    "m_currentImages dB = map (decoded_image scenario_cv scenario_deserializer) [1, 0]"
    "length (m_currentImages dB) = length [1, 0::nat]"
    by blast
  with a b have "\<exists>rA dA rB dB.
      GetSequencesById False scenario_cv scenario_deserializer [0] = Inr (rA, dA) \<and>
      m_currentImages dA = [(''img0.png'', 5)] \<and>
      GetSequencesById False scenario_cv dA [1, 0] = Inr (rB, dB) \<and>
      m_currentImages dB = [(''img1.png'', 5), (''img0.png'', 5)] \<and>
      length (m_currentImages dB) = 2"
    by auto
  with h1 h2 h3 h4 h5 show ?thesis by blast
qed

lemma label_buffers_pairs_for:
  "label_buffers d' (pairs_for cv d p ids) =
     replicate (length ids) (Some (m_labelData (m_labelGenerator d')))"
  by (induction ids arbitrary: p) (simp_all add: label_buffers_def pair_for_def)

lemma GetSequencesById_label_buffers_last:
  assumes "well_formed d"
    and "ids \<noteq> []"
    and "\<forall>i\<in>set ids. i < length (GetSequenceDescriptions d)"
    and "NDEBUG \<or> (\<forall>i\<in>set ids. isContinuous cv (imread cv (path (m_imageSequences d ! i)) IMREAD_COLOR))"
  shows "GetSequencesById_label_buffers NDEBUG cv d ids =
           Inr (replicate (length ids)
                  (Some ((replicate (length (m_labelData (m_labelGenerator d))) 0)
                           [classId (m_imageSequences d ! last ids) := 1])))"
proof -
  let ?c = "\<lambda>i. classId (m_imageSequences d ! i)"
  note req = well_formed_requests [OF assms(1,3,4)]
  note run = GetSequencesById_Inr [OF assms(2) req]
  have "map ?c ids \<noteq> []" using assms(2) by simp
  from m_labelData_foldl_last [OF this, of "m_labelGenerator d"] assms(2)
  have "m_labelData (foldl generator_after (m_labelGenerator d) (map ?c ids)) =
          (replicate (length (m_labelData (m_labelGenerator d))) 0)[?c (last ids) := 1]"
    by (simp add: last_map)
  then show ?thesis
    by (simp add: GetSequencesById_label_buffers_def run label_buffers_pairs_for)
qed

text \<open>
  C2. The scenario, evaluated: construction from the two-row manifest with label
  dimension 3, then \<open>GetSequencesById\<close> for the ids 0 and 1. Two pairs are returned and
  both feature payloads carry \<open>numberOfSamples = 1\<close>. Both label payloads are the same
  pointer into the one buffer of the label generator, which holds the label of the last
  id when the call returns: the caller reads \<open>[0, 0, 1]\<close> for pair 0 as well, where
  the class id of row 0 asks for \<open>[1, 0, 0]\<close>.
\<close>

theorem scenario_label_buffers:
  "ImageDataDeserializer False (file_system ''map.txt'' scenario_manifest) scenario_config
     = Inr scenario_deserializer \<and>
   GetSequencesById False scenario_cv scenario_deserializer [0, 1] =
     Inr ([[\<lparr>data = MatData 0, layout = ImageLayoutWHC 2 2 3, numberOfSamples = 1\<rparr>,
            \<lparr>data = LabelData, layout = ImageLayoutWHC 1 3 1, numberOfSamples = 1\<rparr>],
           [\<lparr>data = MatData 1, layout = ImageLayoutWHC 2 2 3, numberOfSamples = 1\<rparr>,
            \<lparr>data = LabelData, layout = ImageLayoutWHC 1 3 1, numberOfSamples = 1\<rparr>]],
          scenario_deserializer
            \<lparr>m_currentImages := [(''img0.png'', 5), (''img1.png'', 5)],
             m_labelGenerator := TypedLabelGenerator_float [0, 0, 1]\<rparr>) \<and>
   GetSequencesById_label_buffers False scenario_cv scenario_deserializer [0, 1] =
     Inr [Some [0, 0, 1], Some [0, 0, 1]]"
  by (simp add: eval_defs eval2)

subsection \<open>The chunk hooks and GetInputs\<close>

text \<open>
  C9. \<open>RequireChunk\<close> returns \<open>True\<close> and \<open>ReleaseChunk\<close> returns; neither changes
  the deserializer, so a later lookup or \<open>GetSequencesById\<close> gives what it would have
  given without the call.
\<close>

theorem chunk_hooks_no_op:
  "RequireChunk d chunkIndex = (True, d) \<and>
   ReleaseChunk d chunkIndex = d \<and>
   lookup (snd (RequireChunk d chunkIndex)) i = lookup d i \<and>
   lookup (ReleaseChunk d chunkIndex) i = lookup d i \<and>
   GetSequencesById NDEBUG cv (snd (RequireChunk d chunkIndex)) ids = GetSequencesById NDEBUG cv d ids \<and>
   GetSequencesById NDEBUG cv (ReleaseChunk d chunkIndex) ids = GetSequencesById NDEBUG cv d ids"
  by (simp add: RequireChunk_def ReleaseChunk_def)

text \<open>
  C10, as amended. \<open>GetInputs\<close> never returns a list of inputs. Compiled with
  \<^verbatim>\<open>NDEBUG\<close> it throws the "Not supported" error; with assertions enabled the
  \<^verbatim>\<open>assert(false)\<close> before the \<^verbatim>\<open>throw\<close> aborts first.
\<close>

theorem GetInputs_never_returns:
  "GetInputs True d = Inl runtime_error_NotSupported \<and>
   GetInputs False d = Inl (AssertionFailed ''false'') \<and>
   isl (GetInputs NDEBUG d)"
  by (simp add: GetInputs_def assert_def)

text \<open>
  C10 as stated fails: with assertions enabled the outcome is the failed assertion, not
  the "Not supported" error.
\<close>

theorem GetInputs_assert_counterexample:
  "GetInputs False scenario_deserializer \<noteq> Inl runtime_error_NotSupported"
  by (simp add: GetInputs_def assert_def)

end
